theory Spec2Isabelle
  imports Complex_Main "HOL-Library.Sublist"
begin

section \<open>The 2D TVR-DART example script \<open>s01_recon2D.py\<close>\<close>

text \<open>
  The script is a straight-line sequence of statements over numpy arrays and calls
  into libraries that are not part of the repository (astra, SIRT, TVRDART, pylab,
  the file system behind \<open>np.load\<close> and \<open>np.save\<close>, \<open>pathlib\<close>).  The model keeps the
  statements in the order of the source, takes every library function as a field of a
  record of externals, and makes every raise a value: a statement returns
  \<open>Inl e\<close> when it raises \<open>e\<close>.

  Numbers are exact reals.  Rounding is outside the model; the arrays read from the
  file and returned by \<open>SIRT.recon\<close> hold finite values.  The one place where the
  script itself can leave the finite numbers is its division by \<open>sf\<close>, so the arrays
  after that division have elements of type \<open>fnum\<close>.
\<close>

subsection \<open>Arrays and the numpy operations the script uses\<close>

datatype 'a ndarray = NDArray (shape: "nat list") (flat: "'a list")

datatype fnum = Fin real | NonFinite

datatype exn =
    ValueError
  | ImportError
  | FileNotFoundError
  | RuntimeError
  | LibraryError string

text \<open>An operation between an array and a scalar works element by element.\<close>

definition elementwise :: "('a \<Rightarrow> 'b) \<Rightarrow> 'a ndarray \<Rightarrow> 'b ndarray" where
  "elementwise f a = NDArray (shape a) (map f (flat a))"

text \<open>\<open>[Nan, Ndetx] = data.shape\<close>: unpacking raises ValueError unless there are two
  dimensions.\<close>

fun unpack2 :: "nat list \<Rightarrow> exn + (nat \<times> nat)" where
  "unpack2 [a, b] = Inr (a, b)"
| "unpack2 _ = Inl ValueError"

text \<open>\<open>np.linspace(start, stop, num, True)\<close>: \<open>num\<close> samples, the last one set to
  \<open>stop\<close> when there are at least two.\<close>

definition np_linspace :: "real \<Rightarrow> real \<Rightarrow> nat \<Rightarrow> real ndarray" where
  "np_linspace start stop num =
     (let dv = num - 1;
          delta = stop - start;
          y0 = map real [0..<num];
          y1 = (if dv > 0 then map (\<lambda>i. i * (delta / real dv)) y0
                else map (\<lambda>i. i * delta) y0);
          y2 = map (\<lambda>v. v + start) y1;
          y3 = (if num > 1 then y2[num - 1 := stop] else y2)
      in NDArray [num] y3)"

definition np_ones :: "nat \<Rightarrow> real ndarray" where
  "np_ones n = NDArray [n] (replicate n 1)"

text \<open>\<open>np.max\<close> raises ValueError on an array without elements.\<close>

definition np_max :: "real ndarray \<Rightarrow> exn + real" where
  "np_max a = (case flat a of [] \<Rightarrow> Inl ValueError | x # xs \<Rightarrow> Inr (fold max xs x))"

text \<open>Division of a finite number by the scalar \<open>sf\<close>: numpy does not raise on a zero
  divisor, it gives an infinity or a NaN (and a warning).\<close>

definition np_divide :: "real \<Rightarrow> real \<Rightarrow> fnum" where
  "np_divide x s = (if s = 0 then NonFinite else Fin (x / s))"

text \<open>Multiplication by a finite scalar keeps a non-finite value non-finite.\<close>

fun np_multiply :: "fnum \<Rightarrow> real \<Rightarrow> fnum" where
  "np_multiply (Fin a) s = Fin (a * s)"
| "np_multiply NonFinite s = NonFinite"

text \<open>\<open>a.reshape(n)\<close> raises ValueError when the sizes differ.\<close>

definition reshape :: "'a ndarray \<Rightarrow> nat list \<Rightarrow> exn + 'a ndarray" where
  "reshape a newshape =
     (if prod_list newshape = length (flat a) then Inr (NDArray newshape (flat a))
      else Inl ValueError)"

text \<open>\<open>Path.joinpath\<close> with relative parts.\<close>

definition joinpath :: "string \<Rightarrow> string list \<Rightarrow> string" where
  "joinpath base parts = foldl (\<lambda>p q. p @ ''/'' @ q) base parts"

subsection \<open>Statements, their effects and their failures\<close>

datatype action = Import string | Call string | Print string | Assign string

datatype event =
    Start nat action
  | Raised nat exn
  | ReadFile string
  | Wrote string "fnum ndarray"

type_synonym 'a comp = "(exn + 'a) \<times> event list"

definition ret :: "'a \<Rightarrow> 'a comp" where
  "ret x = (Inr x, [])"

text \<open>Sequencing: when the first part raises, the second part does not run.\<close>

definition bnd :: "'a comp \<Rightarrow> ('a \<Rightarrow> 'b comp) \<Rightarrow> 'b comp" where
  "bnd m f =
     (case m of
        (Inl e, t) \<Rightarrow> (Inl e, t)
      | (Inr x, t) \<Rightarrow> (case f x of (r, t') \<Rightarrow> (r, t @ t')))"

text \<open>The statement on source line \<open>l\<close>, with result \<open>r\<close>.\<close>

definition step :: "nat \<Rightarrow> action \<Rightarrow> exn + 'a \<Rightarrow> 'a comp" where
  "step l a r = (r, Start l a # (case r of Inl e \<Rightarrow> [Raised l e] | Inr x \<Rightarrow> []))"

definition tell :: "event \<Rightarrow> unit comp" where
  "tell ev = (Inr (), [ev])"

subsection \<open>The process and the libraries\<close>

record proc =
  argv :: "string list"
  environ :: "(string \<times> string) list"

record ('pg, 'vg, 'pid, 'w) ext =
  import_module :: "string \<Rightarrow> exn + unit"
  Path_home :: "(string \<times> string) list \<Rightarrow> exn + string"
  np_load :: "string \<Rightarrow> exn + real ndarray"
  np_save :: "string \<Rightarrow> fnum ndarray \<Rightarrow> exn + unit"
  astra_create_proj_geom :: "string \<Rightarrow> real \<Rightarrow> nat \<Rightarrow> real ndarray \<Rightarrow> exn + 'pg"
  astra_create_vol_geom :: "nat \<Rightarrow> nat \<Rightarrow> exn + 'vg"
  astra_create_projector :: "string \<Rightarrow> 'pg \<Rightarrow> 'vg \<Rightarrow> exn + 'pid"
  astra_OpTomo :: "'pid \<Rightarrow> exn + 'w"
  SIRT_recon :: "real ndarray \<Rightarrow> nat \<Rightarrow> 'pg \<Rightarrow> 'vg \<Rightarrow> string \<Rightarrow> exn + real ndarray"
  TVRDART_gv2param :: "real ndarray \<Rightarrow> real ndarray \<Rightarrow> exn + real ndarray"
  TVRDART_joint :: "'w \<Rightarrow> fnum ndarray \<Rightarrow> fnum ndarray \<Rightarrow> real ndarray \<Rightarrow> int
                      \<Rightarrow> exn + (fnum ndarray \<times> fnum ndarray)"
  TVRDART_param2gv :: "fnum ndarray \<Rightarrow> exn + (fnum ndarray \<times> fnum ndarray)"
  TVRDART_recon :: "'w \<Rightarrow> fnum ndarray \<Rightarrow> fnum ndarray \<Rightarrow> fnum ndarray \<Rightarrow> int \<Rightarrow> nat
                      \<Rightarrow> exn + (fnum ndarray \<times> fnum ndarray)"
  pylab_gray :: "exn + unit"
  pylab_figure :: "nat \<Rightarrow> exn + unit"
  pylab_imshow :: "fnum ndarray \<Rightarrow> exn + unit"
  pylab_colorbar :: "exn + unit"
  pylab_title :: "string \<Rightarrow> exn + unit"
  pylab_show :: "exn + unit"

subsection \<open>The script, section by section\<close>

text \<open>Lines 46 to 49: the imports at the top of the file.\<close>

definition module_imports :: "('pg, 'vg, 'pid, 'w) ext \<Rightarrow> unit comp" where
  "module_imports E =
     bnd (step 46 (Import ''TVRDART'') (import_module E ''TVRDART'')) (\<lambda>_.
     bnd (step 47 (Import ''astra'') (import_module E ''astra'')) (\<lambda>_.
     bnd (step 48 (Import ''numpy'') (import_module E ''numpy'')) (\<lambda>_.
     step 49 (Import ''pathlib'') (import_module E ''pathlib''))))"

text \<open>The expression for the projection angles on line 56.\<close>

definition angles_expr :: "nat \<Rightarrow> real ndarray" where
  "angles_expr Nan = elementwise (\<lambda>x. x * (pi / 180)) (np_linspace (- 50) 50 Nan)"

text \<open>Lines 51 to 56: read the data.\<close>

definition input_parts :: "string list" where
  "input_parts = [''Documents'', ''GitHub'', ''ContributedTools'', ''nanotube2d.npy'']"

definition read_data ::
  "('pg, 'vg, 'pid, 'w) ext \<Rightarrow> proc
     \<Rightarrow> (real ndarray \<times> nat \<times> nat \<times> real ndarray) comp" where
  "read_data E P =
     bnd (step 52 (Call ''Path.home'') (Path_home E (environ P))) (\<lambda>home.
     bnd (tell (ReadFile (joinpath home input_parts))) (\<lambda>_.
     bnd (step 52 (Call ''np.load'') (np_load E (joinpath home input_parts))) (\<lambda>data.
     bnd (step 55 (Assign ''Nan, Ndetx'') (unpack2 (shape data))) (\<lambda>(Nan, Ndetx).
     bnd (step 56 (Assign ''angles'') (Inr (angles_expr Nan))) (\<lambda>angles.
     ret (data, Nan, Ndetx, angles))))))"

text \<open>Lines 58 to 61: intensity-offset correction.\<close>

definition offset_correction :: "real ndarray \<Rightarrow> (real \<times> real ndarray) comp" where
  "offset_correction data =
     bnd (step 59 (Print ''Intensity-offset correction...'') (Inr ())) (\<lambda>_.
     bnd (step 60 (Assign ''offset'') (Inr (- 0.00893))) (\<lambda>offset.
     bnd (step 61 (Assign ''data'') (Inr (elementwise (\<lambda>x. x - offset) data))) (\<lambda>data.
     ret (offset, data))))"

text \<open>Lines 63 to 71: projection and volume geometry, the projector and its operator.\<close>

definition geometry ::
  "('pg, 'vg, 'pid, 'w) ext \<Rightarrow> nat \<Rightarrow> real ndarray
     \<Rightarrow> (nat \<times> nat \<times> 'pg \<times> 'vg \<times> 'pid \<times> 'w) comp" where
  "geometry E Ndetx angles =
     bnd (step 64 (Print ''Configure projection and volume geometry...'') (Inr ())) (\<lambda>_.
     bnd (step 65 (Assign ''Nx'') (Inr Ndetx)) (\<lambda>Nx.
     bnd (step 66 (Assign ''Nz'') (Inr Ndetx)) (\<lambda>Nz.
     bnd (step 68 (Call ''astra.create_proj_geom'')
            (astra_create_proj_geom E ''parallel'' 1.0 Ndetx angles)) (\<lambda>proj_geom.
     bnd (step 69 (Call ''astra.create_vol_geom'') (astra_create_vol_geom E Nz Nx)) (\<lambda>vol_geom.
     bnd (step 70 (Call ''astra.create_projector'')
            (astra_create_projector E ''cuda'' proj_geom vol_geom)) (\<lambda>proj_id.
     bnd (step 71 (Call ''astra.OpTomo'') (astra_OpTomo E proj_id)) (\<lambda>W.
     ret (Nx, Nz, proj_geom, vol_geom, proj_id, W))))))))"

text \<open>Lines 73 to 77: the TVR-DART parameters.\<close>

definition parameters :: "(nat \<times> real ndarray \<times> int \<times> nat) comp" where
  "parameters =
     bnd (step 74 (Assign ''Ngv'') (Inr 2)) (\<lambda>Ngv.
     bnd (step 75 (Assign ''K'') (Inr (elementwise (\<lambda>x. 4 * x) (np_ones (Ngv - 1))))) (\<lambda>K.
     bnd (step 76 (Assign ''lamb'') (Inr 10)) (\<lambda>lamb.
     bnd (step 77 (Assign ''Niter'') (Inr 50)) (\<lambda>Niter.
     ret (Ngv, K, lamb, Niter)))))"

text \<open>Lines 84 to 87: normalisation by the maximum of the SIRT reconstruction.\<close>

definition normalization ::
  "real ndarray \<Rightarrow> real ndarray \<Rightarrow> nat \<Rightarrow> nat
     \<Rightarrow> (real \<times> fnum ndarray \<times> fnum ndarray \<times> fnum ndarray) comp" where
  "normalization data recsirt Nan Ndetx =
     bnd (step 84 (Assign ''sf'') (np_max recsirt)) (\<lambda>sf.
     bnd (step 85 (Assign ''data'') (Inr (elementwise (\<lambda>x. np_divide x sf) data))) (\<lambda>data.
     bnd (step 86 (Assign ''p'') (reshape data [Nan * Ndetx])) (\<lambda>p.
     bnd (step 87 (Assign ''recsirt'') (Inr (elementwise (\<lambda>x. np_divide x sf) recsirt)))
       (\<lambda>recsirt.
     ret (sf, data, p, recsirt)))))"

text \<open>Lines 79 to 87: initial reconstruction and normalisation.\<close>

definition initial_reconstruction ::
  "('pg, 'vg, 'pid, 'w) ext \<Rightarrow> real ndarray \<Rightarrow> nat \<Rightarrow> nat \<Rightarrow> 'pg \<Rightarrow> 'vg
     \<Rightarrow> (real \<times> fnum ndarray \<times> fnum ndarray \<times> fnum ndarray) comp" where
  "initial_reconstruction E data Nan Ndetx proj_geom vol_geom =
     bnd (step 80 (Print ''Initial reconstruction...'') (Inr ())) (\<lambda>_.
     bnd (step 81 (Import ''SIRT'') (import_module E ''SIRT'')) (\<lambda>_.
     bnd (step 83 (Call ''SIRT.recon'') (SIRT_recon E data 50 proj_geom vol_geom ''cuda''))
       (\<lambda>recsirt.
     normalization data recsirt Nan Ndetx)))"

text \<open>Lines 89 to 94: automatic parameter estimation.\<close>

definition parameter_estimation ::
  "('pg, 'vg, 'pid, 'w) ext \<Rightarrow> 'w \<Rightarrow> fnum ndarray \<Rightarrow> fnum ndarray \<Rightarrow> nat
     \<Rightarrow> real ndarray \<Rightarrow> int
     \<Rightarrow> (real ndarray \<times> fnum ndarray \<times> fnum ndarray \<times> fnum ndarray) comp" where
  "parameter_estimation E W p recsirt Ngv K lamb =
     bnd (step 90 (Print ''Parameter estimation...'') (Inr ())) (\<lambda>_.
     bnd (step 91 (Assign ''gv'') (Inr (np_linspace 0 1 Ngv))) (\<lambda>gv.
     bnd (step 92 (Call ''TVRDART.gv2param'') (TVRDART_gv2param E gv K)) (\<lambda>param0.
     bnd (step 93 (Call ''TVRDART.joint'') (TVRDART_joint E W p recsirt param0 lamb))
       (\<lambda>(Segrec, param_esti).
     bnd (step 94 (Call ''TVRDART.param2gv'') (TVRDART_param2gv E param_esti)) (\<lambda>(gv, K).
     ret (param0, param_esti, gv, K))))))"

text \<open>Lines 96 to 101: reconstruction with the estimated parameters, then the
  rescaling by \<open>sf\<close>.\<close>

definition reconstruction ::
  "('pg, 'vg, 'pid, 'w) ext \<Rightarrow> 'w \<Rightarrow> fnum ndarray \<Rightarrow> fnum ndarray \<Rightarrow> fnum ndarray
     \<Rightarrow> int \<Rightarrow> nat \<Rightarrow> fnum ndarray \<Rightarrow> real
     \<Rightarrow> (fnum ndarray \<times> fnum ndarray \<times> fnum ndarray \<times> fnum ndarray) comp" where
  "reconstruction E W p recsirt param_esti lamb Niter gv sf =
     bnd (step 97 (Print ''Reconstruction with estimated parameters...'') (Inr ())) (\<lambda>_.
     bnd (step 98 (Call ''TVRDART.recon'')
            (TVRDART_recon E W p recsirt param_esti lamb Niter)) (\<lambda>(Segrec, rec).
     bnd (step 99 (Assign ''gv'') (Inr (elementwise (\<lambda>x. np_multiply x sf) gv))) (\<lambda>gv.
     bnd (step 100 (Assign ''recsirt'') (Inr (elementwise (\<lambda>x. np_multiply x sf) recsirt)))
       (\<lambda>recsirt.
     bnd (step 101 (Assign ''Segrec'') (Inr (elementwise (\<lambda>x. np_multiply x sf) Segrec)))
       (\<lambda>Segrec.
     ret (Segrec, rec, gv, recsirt))))))"

text \<open>Lines 103 to 118: the plots.\<close>

definition plots ::
  "('pg, 'vg, 'pid, 'w) ext \<Rightarrow> fnum ndarray \<Rightarrow> fnum ndarray \<Rightarrow> unit comp" where
  "plots E recsirt Segrec =
     bnd (step 105 (Import ''pylab'') (import_module E ''pylab'')) (\<lambda>_.
     bnd (step 107 (Call ''pylab.gray'') (pylab_gray E)) (\<lambda>_.
     bnd (step 108 (Call ''pylab.figure'') (pylab_figure E 1)) (\<lambda>_.
     bnd (step 109 (Call ''pylab.imshow'') (pylab_imshow E recsirt)) (\<lambda>_.
     bnd (step 110 (Call ''pylab.colorbar'') (pylab_colorbar E)) (\<lambda>_.
     bnd (step 111 (Call ''pylab.title'') (pylab_title E ''SIRT'')) (\<lambda>_.
     bnd (step 113 (Call ''pylab.figure'') (pylab_figure E 2)) (\<lambda>_.
     bnd (step 114 (Call ''pylab.imshow'') (pylab_imshow E Segrec)) (\<lambda>_.
     bnd (step 115 (Call ''pylab.colorbar'') (pylab_colorbar E)) (\<lambda>_.
     bnd (step 116 (Call ''pylab.title'') (pylab_title E ''TVR-DART'')) (\<lambda>_.
     step 118 (Call ''pylab.show'') (pylab_show E)))))))))))"

text \<open>Lines 120 to 122: save the result.\<close>

definition output_file :: string where
  "output_file = ''TVRDART2Dreconstruction.npy''"

definition save_results :: "('pg, 'vg, 'pid, 'w) ext \<Rightarrow> fnum ndarray \<Rightarrow> unit comp" where
  "save_results E Segrec =
     bnd (step 121 (Print ''Saving results...'') (Inr ())) (\<lambda>_.
     bnd (step 122 (Call ''np.save'') (np_save E output_file Segrec)) (\<lambda>_.
     tell (Wrote output_file Segrec)))"

subsection \<open>The whole script\<close>

text \<open>The values of the module's variables when the script has run to its end.\<close>

record ('pg, 'vg, 'pid, 'w) globals =
  g_data :: "fnum ndarray"
  g_Nan :: nat
  g_Ndetx :: nat
  g_angles :: "real ndarray"
  g_offset :: real
  g_Nx :: nat
  g_Nz :: nat
  g_proj_geom :: 'pg
  g_vol_geom :: 'vg
  g_proj_id :: 'pid
  g_W :: 'w
  g_Ngv :: nat
  g_K :: "fnum ndarray"
  g_lamb :: int
  g_Niter :: nat
  g_recsirt :: "fnum ndarray"
  g_sf :: real
  g_p :: "fnum ndarray"
  g_gv :: "fnum ndarray"
  g_param0 :: "real ndarray"
  g_Segrec :: "fnum ndarray"
  g_param_esti :: "fnum ndarray"
  g_rec :: "fnum ndarray"

text \<open>Lines 63 to 122, from the corrected data on.\<close>

definition from_geometry ::
  "('pg, 'vg, 'pid, 'w) ext \<Rightarrow> real ndarray \<Rightarrow> nat \<Rightarrow> nat \<Rightarrow> real ndarray \<Rightarrow> real
     \<Rightarrow> ('pg, 'vg, 'pid, 'w) globals comp" where
  "from_geometry E data Nan Ndetx angles offset =
     bnd (geometry E Ndetx angles) (\<lambda>(Nx, Nz, proj_geom, vol_geom, proj_id, W).
     bnd parameters (\<lambda>(Ngv, K, lamb, Niter).
     bnd (initial_reconstruction E data Nan Ndetx proj_geom vol_geom)
       (\<lambda>(sf, data, p, recsirt).
     bnd (parameter_estimation E W p recsirt Ngv K lamb) (\<lambda>(param0, param_esti, gv, K).
     bnd (reconstruction E W p recsirt param_esti lamb Niter gv sf)
       (\<lambda>(Segrec, rec, gv, recsirt).
     bnd (plots E recsirt Segrec) (\<lambda>_.
     bnd (save_results E Segrec) (\<lambda>_.
     ret \<lparr> g_data = data, g_Nan = Nan, g_Ndetx = Ndetx, g_angles = angles,
           g_offset = offset, g_Nx = Nx, g_Nz = Nz, g_proj_geom = proj_geom,
           g_vol_geom = vol_geom, g_proj_id = proj_id, g_W = W, g_Ngv = Ngv, g_K = K,
           g_lamb = lamb, g_Niter = Niter, g_recsirt = recsirt, g_sf = sf, g_p = p,
           g_gv = gv, g_param0 = param0, g_Segrec = Segrec, g_param_esti = param_esti,
           g_rec = rec \<rparr>)))))))"

definition script ::
  "('pg, 'vg, 'pid, 'w) ext \<Rightarrow> proc \<Rightarrow> ('pg, 'vg, 'pid, 'w) globals comp" where
  "script E P =
     bnd (module_imports E) (\<lambda>_.
     bnd (read_data E P) (\<lambda>(data, Nan, Ndetx, angles).
     bnd (offset_correction data) (\<lambda>(offset, data).
     from_geometry E data Nan Ndetx angles offset)))"

subsection \<open>What a run leaves behind\<close>

definition started :: "event list \<Rightarrow> (nat \<times> action) list" where
  "started t = concat (map (\<lambda>ev. case ev of Start l a \<Rightarrow> [(l, a)] | _ \<Rightarrow> []) t)"

definition exceptions :: "event list \<Rightarrow> (nat \<times> exn) list" where
  "exceptions t = concat (map (\<lambda>ev. case ev of Raised l e \<Rightarrow> [(l, e)] | _ \<Rightarrow> []) t)"


definition files_written :: "event list \<Rightarrow> (string \<times> fnum ndarray) list" where
  "files_written t = concat (map (\<lambda>ev. case ev of Wrote f a \<Rightarrow> [(f, a)] | _ \<Rightarrow> []) t)"

definition calls_of :: "(nat \<times> action) list \<Rightarrow> string list" where
  "calls_of L = concat (map (\<lambda>(l, a). case a of Call f \<Rightarrow> [f] | _ \<Rightarrow> []) L)"

definition calls :: "event list \<Rightarrow> string list" where
  "calls t = calls_of (started t)"

text \<open>The statements of the script in the order of the source, section by section.\<close>

definition imports_statements :: "(nat \<times> action) list" where
  "imports_statements =
     [(46, Import ''TVRDART''), (47, Import ''astra''), (48, Import ''numpy''),
      (49, Import ''pathlib'')]"

definition read_data_statements :: "(nat \<times> action) list" where
  "read_data_statements =
     [(52, Call ''Path.home''), (52, Call ''np.load''), (55, Assign ''Nan, Ndetx''),
      (56, Assign ''angles'')]"

definition offset_statements :: "(nat \<times> action) list" where
  "offset_statements =
     [(59, Print ''Intensity-offset correction...''), (60, Assign ''offset''),
      (61, Assign ''data'')]"

definition geometry_statements :: "(nat \<times> action) list" where
  "geometry_statements =
     [(64, Print ''Configure projection and volume geometry...''), (65, Assign ''Nx''),
      (66, Assign ''Nz''), (68, Call ''astra.create_proj_geom''),
      (69, Call ''astra.create_vol_geom''), (70, Call ''astra.create_projector''),
      (71, Call ''astra.OpTomo'')]"

definition parameters_statements :: "(nat \<times> action) list" where
  "parameters_statements =
     [(74, Assign ''Ngv''), (75, Assign ''K''), (76, Assign ''lamb''), (77, Assign ''Niter'')]"

definition normalization_statements :: "(nat \<times> action) list" where
  "normalization_statements =
     [(84, Assign ''sf''), (85, Assign ''data''), (86, Assign ''p''), (87, Assign ''recsirt'')]"

definition initial_statements :: "(nat \<times> action) list" where
  "initial_statements =
     [(80, Print ''Initial reconstruction...''), (81, Import ''SIRT''),
      (83, Call ''SIRT.recon'')] @ normalization_statements"

definition estimation_statements :: "(nat \<times> action) list" where
  "estimation_statements =
     [(90, Print ''Parameter estimation...''), (91, Assign ''gv''),
      (92, Call ''TVRDART.gv2param''), (93, Call ''TVRDART.joint''),
      (94, Call ''TVRDART.param2gv'')]"

definition reconstruction_statements :: "(nat \<times> action) list" where
  "reconstruction_statements =
     [(97, Print ''Reconstruction with estimated parameters...''),
      (98, Call ''TVRDART.recon''), (99, Assign ''gv''), (100, Assign ''recsirt''),
      (101, Assign ''Segrec'')]"

definition plots_statements :: "(nat \<times> action) list" where
  "plots_statements =
     [(105, Import ''pylab''), (107, Call ''pylab.gray''), (108, Call ''pylab.figure''),
      (109, Call ''pylab.imshow''), (110, Call ''pylab.colorbar''),
      (111, Call ''pylab.title''), (113, Call ''pylab.figure''),
      (114, Call ''pylab.imshow''), (115, Call ''pylab.colorbar''),
      (116, Call ''pylab.title''), (118, Call ''pylab.show'')]"

definition save_statements :: "(nat \<times> action) list" where
  "save_statements = [(121, Print ''Saving results...''), (122, Call ''np.save'')]"

definition from_geometry_statements :: "(nat \<times> action) list" where
  "from_geometry_statements =
     geometry_statements @ parameters_statements @ initial_statements
       @ estimation_statements @ reconstruction_statements @ plots_statements
       @ save_statements @ []"

definition script_statements :: "(nat \<times> action) list" where
  "script_statements =
     imports_statements @ read_data_statements @ offset_statements
       @ from_geometry_statements"

text \<open>A computation follows a list of statements when a run that returns has started
  exactly these statements, in this order and without an exception, and a run that
  raises has started them up to some statement, whose exception is the last event and
  the result of the run.\<close>

definition follows :: "(nat \<times> action) list \<Rightarrow> 'a comp \<Rightarrow> bool" where
  "follows L c =
     (case c of
        (Inr x, t) \<Rightarrow> started t = L \<and> exceptions t = []
      | (Inl e, t) \<Rightarrow>
          (\<exists>k<length L. started t = take (Suc k) L
              \<and> exceptions t = [(fst (L ! k), e)]
              \<and> t \<noteq> [] \<and> last t = Raised (fst (L ! k)) e))"

text \<open>The stages of the run and the source lines that belong to each of them.  The
  imports at the top and the assignments of the TVR-DART parameters belong to none.\<close>

datatype stage =
    LoadData | OffsetCorrection | Geometry | InitialSIRT | ParameterEstimation
  | FinalReconstruction | Rescale | Visualize | SaveResult

definition stage_of_line :: "nat \<Rightarrow> stage option" where
  "stage_of_line l =
     (if 52 \<le> l \<and> l \<le> 56 then Some LoadData
      else if 59 \<le> l \<and> l \<le> 61 then Some OffsetCorrection
      else if 64 \<le> l \<and> l \<le> 71 then Some Geometry
      else if 80 \<le> l \<and> l \<le> 87 then Some InitialSIRT
      else if 90 \<le> l \<and> l \<le> 94 then Some ParameterEstimation
      else if 97 \<le> l \<and> l \<le> 98 then Some FinalReconstruction
      else if 99 \<le> l \<and> l \<le> 101 then Some Rescale
      else if 105 \<le> l \<and> l \<le> 118 then Some Visualize
      else if 121 \<le> l \<and> l \<le> 122 then Some SaveResult
      else None)"

definition stages_of :: "(nat \<times> action) list \<Rightarrow> stage list" where
  "stages_of L =
     remdups_adj (concat (map (\<lambda>(l, a). case stage_of_line l of Some s \<Rightarrow> [s] | None \<Rightarrow> []) L))"

definition all_stages :: "stage list" where
  "all_stages =
     [LoadData, OffsetCorrection, Geometry, InitialSIRT, ParameterEstimation,
      FinalReconstruction, Rescale, Visualize, SaveResult]"

text \<open>The functions of the astra toolbox that delete a projector.\<close>

definition release_functions :: "string list" where
  "release_functions =
     [''astra.projector.delete'', ''astra.projector.clear'', ''astra.clear'',
      ''astra.functions.clear'']"

text \<open>The reconstruction routine returns an array of the shape of the volume geometry
  that its operator was built on.\<close>

definition recon_has_volume_shape :: "('pg, 'vg, 'pid, 'w) ext \<Rightarrow> bool" where
  "recon_has_volume_shape E =
     (\<forall>r c pg vg pid W p x prm l n S rc.
        astra_create_vol_geom E r c = Inr vg
          \<and> astra_create_projector E ''cuda'' pg vg = Inr pid
          \<and> astra_OpTomo E pid = Inr W
          \<and> TVRDART_recon E W p x prm l n = Inr (S, rc)
        \<longrightarrow> shape S = [r, c])"

text \<open>The maximum of an array of finite values is \<open>m\<close>.\<close>

definition has_max :: "fnum ndarray \<Rightarrow> real \<Rightarrow> bool" where
  "has_max a m = (Fin m \<in> set (flat a) \<and> (\<forall>y\<in>set (flat a). \<exists>v. y = Fin v \<and> v \<le> m))"

subsection \<open>A small instance of the libraries\<close>

text \<open>An instance on which the script can be run: the home directory is the value of
  \<open>HOME\<close> (the password database says \<open>/root\<close> when it is not set), the file system
  holds one sinogram, below \<open>/home/u\<close>, \<open>SIRT.recon\<close> returns a given array, and the
  TVR-DART routines return arrays of the shape of the volume.\<close>

definition posix_home :: "(string \<times> string) list \<Rightarrow> exn + string" where
  "posix_home env = (case map_of env ''HOME'' of Some h \<Rightarrow> Inr h | None \<Rightarrow> Inr ''/root'')"

definition example_libs ::
  "real ndarray \<Rightarrow> real ndarray \<Rightarrow> (unit, nat \<times> nat, nat \<times> nat, nat \<times> nat) ext" where
  "example_libs file sirt =
     \<lparr> import_module = (\<lambda>m. Inr ()),
       Path_home = posix_home,
       np_load = (\<lambda>f. if f = ''/home/u/Documents/GitHub/ContributedTools/nanotube2d.npy''
                       then Inr file else Inl FileNotFoundError),
       np_save = (\<lambda>f a. Inr ()),
       astra_create_proj_geom = (\<lambda>kind width n angles. Inr ()),
       astra_create_vol_geom = (\<lambda>r c. Inr (r, c)),
       astra_create_projector = (\<lambda>kind pg vg. Inr vg),
       astra_OpTomo = (\<lambda>pid. Inr pid),
       SIRT_recon = (\<lambda>d n pg vg kind. Inr sirt),
       TVRDART_gv2param = (\<lambda>gv K. Inr (NDArray [3] (flat gv @ flat K))),
       TVRDART_joint = (\<lambda>W p x prm l. Inr (x, elementwise Fin prm)),
       TVRDART_param2gv =
         (\<lambda>prm. Inr (NDArray [2] (take 2 (flat prm)), NDArray [1] (drop 2 (flat prm)))),
       TVRDART_recon =
         (\<lambda>W p x prm l n.
            Inr (NDArray [fst W, snd W] (replicate (fst W * snd W) (Fin 0)), x)),
       pylab_gray = Inr (),
       pylab_figure = (\<lambda>n. Inr ()),
       pylab_imshow = (\<lambda>a. Inr ()),
       pylab_colorbar = Inr (),
       pylab_title = (\<lambda>s. Inr ()),
       pylab_show = Inr () \<rparr>"

definition example_proc :: proc where
  "example_proc = \<lparr> argv = [''s01_recon2D.py''], environ = [(''HOME'', ''/home/u'')] \<rparr>"

definition example_sinogram :: "real ndarray" where
  "example_sinogram = NDArray [2, 2] [1, 2, 3, 4]"

definition example_sirt :: "real ndarray" where
  "example_sirt = NDArray [2, 2] [1, 2, 2, 1]"

definition example_globals :: "(unit, nat \<times> nat, nat \<times> nat, nat \<times> nat) globals" where
  "example_globals =
     \<lparr> g_data = NDArray [2, 2] (map (\<lambda>x. Fin ((x + 0.00893) / 2)) [1, 2, 3, 4]),
       g_Nan = 2, g_Ndetx = 2,
       g_angles = NDArray [2] [- 50 * (pi / 180), 50 * (pi / 180)],
       g_offset = - 0.00893, g_Nx = 2, g_Nz = 2, g_proj_geom = (),
       g_vol_geom = (2, 2), g_proj_id = (2, 2), g_W = (2, 2), g_Ngv = 2,
       g_K = NDArray [1] [Fin 4], g_lamb = 10, g_Niter = 50,
       g_recsirt = NDArray [2, 2] [Fin 1, Fin 2, Fin 2, Fin 1], g_sf = 2,
       g_p = NDArray [4] (map (\<lambda>x. Fin ((x + 0.00893) / 2)) [1, 2, 3, 4]),
       g_gv = NDArray [2] [Fin 0, Fin 2],
       g_param0 = NDArray [3] [0, 1, 4],
       g_Segrec = NDArray [2, 2] [Fin 0, Fin 0, Fin 0, Fin 0],
       g_param_esti = NDArray [3] [Fin 0, Fin 1, Fin 4],
       g_rec = NDArray [2, 2] [Fin (1 / 2), Fin 1, Fin 1, Fin (1 / 2)] \<rparr>"

definition example_trace :: "event list" where
  "example_trace =
     [Start 46 (Import ''TVRDART''), Start 47 (Import ''astra''),
      Start 48 (Import ''numpy''), Start 49 (Import ''pathlib''),
      Start 52 (Call ''Path.home''),
      ReadFile ''/home/u/Documents/GitHub/ContributedTools/nanotube2d.npy'',
      Start 52 (Call ''np.load''), Start 55 (Assign ''Nan, Ndetx''),
      Start 56 (Assign ''angles''),
      Start 59 (Print ''Intensity-offset correction...''),
      Start 60 (Assign ''offset''), Start 61 (Assign ''data''),
      Start 64 (Print ''Configure projection and volume geometry...''),
      Start 65 (Assign ''Nx''), Start 66 (Assign ''Nz''),
      Start 68 (Call ''astra.create_proj_geom''),
      Start 69 (Call ''astra.create_vol_geom''),
      Start 70 (Call ''astra.create_projector''),
      Start 71 (Call ''astra.OpTomo''),
      Start 74 (Assign ''Ngv''), Start 75 (Assign ''K''),
      Start 76 (Assign ''lamb''), Start 77 (Assign ''Niter''),
      Start 80 (Print ''Initial reconstruction...''), Start 81 (Import ''SIRT''),
      Start 83 (Call ''SIRT.recon''),
      Start 84 (Assign ''sf''), Start 85 (Assign ''data''),
      Start 86 (Assign ''p''), Start 87 (Assign ''recsirt''),
      Start 90 (Print ''Parameter estimation...''), Start 91 (Assign ''gv''),
      Start 92 (Call ''TVRDART.gv2param''), Start 93 (Call ''TVRDART.joint''),
      Start 94 (Call ''TVRDART.param2gv''),
      Start 97 (Print ''Reconstruction with estimated parameters...''),
      Start 98 (Call ''TVRDART.recon''), Start 99 (Assign ''gv''),
      Start 100 (Assign ''recsirt''), Start 101 (Assign ''Segrec''),
      Start 105 (Import ''pylab''), Start 107 (Call ''pylab.gray''),
      Start 108 (Call ''pylab.figure''), Start 109 (Call ''pylab.imshow''),
      Start 110 (Call ''pylab.colorbar''), Start 111 (Call ''pylab.title''),
      Start 113 (Call ''pylab.figure''), Start 114 (Call ''pylab.imshow''),
      Start 115 (Call ''pylab.colorbar''), Start 116 (Call ''pylab.title''),
      Start 118 (Call ''pylab.show''),
      Start 121 (Print ''Saving results...''), Start 122 (Call ''np.save''),
      Wrote ''TVRDART2Dreconstruction.npy'' (NDArray [2, 2] [Fin 0, Fin 0, Fin 0, Fin 0])]"

section \<open>Properties\<close>

subsection \<open>Sequencing and single statements\<close>

lemma bnd_Inl: "bnd (Inl e, t) f = (Inl e, t)"
  by (simp add: bnd_def)

lemma bnd_Inr: "bnd (Inr x, t) f = (fst (f x), t @ snd (f x))"
  by (simp add: bnd_def split: prod.splits)

lemma step_Inr: "step l a (Inr x) = (Inr x, [Start l a])"
  by (simp add: step_def)

lemma step_Inl: "step l a (Inl e) = (Inl e, [Start l a, Raised l e])"
  by (simp add: step_def)

lemma linspace_length: "length (flat (np_linspace start stop num)) = num"
  by (simp add: np_linspace_def Let_def)

lemma linspace_flat:
  assumes "2 \<le> num"
  shows "flat (np_linspace start stop num) =
           map (\<lambda>i. start + real i * ((stop - start) / real (num - 1))) [0..<num]"
proof (rule nth_equalityI)
  show "length (flat (np_linspace start stop num)) = length (map (\<lambda>i. start + real i * ((stop - start) / real (num - 1))) [0..<num])"
    by (simp add: linspace_length)
next
  fix i assume "i < length (flat (np_linspace start stop num))"
  then have i: "i < num" by (simp add: linspace_length)
  show "flat (np_linspace start stop num) ! i = map (\<lambda>i. start + real i * ((stop - start) / real (num - 1))) [0..<num] ! i"
  proof (cases "i = num - 1")
    case True
    with assms i show ?thesis by (simp add: np_linspace_def Let_def)
  next
    case False
    with assms i show ?thesis by (simp add: np_linspace_def Let_def algebra_simps)
  qed
qed

lemma linspace_one: "flat (np_linspace start stop (Suc 0)) = [start]"
  by (simp add: np_linspace_def Let_def)

lemma linspace_zero: "flat (np_linspace start stop 0) = []"
  by (simp add: np_linspace_def Let_def)

lemma angles_shape: "shape (angles_expr Nan) = [Nan]"
  by (simp add: angles_expr_def elementwise_def np_linspace_def Let_def)

lemma angles_length: "length (flat (angles_expr Nan)) = Nan"
  by (simp add: angles_expr_def elementwise_def linspace_length)

lemma angles_nth:
  assumes "2 \<le> Nan" "i < Nan"
  shows "flat (angles_expr Nan) ! i = (- 50 + real i * (100 / real (Nan - 1))) * (pi / 180)"
  using assms by (simp add: angles_expr_def elementwise_def linspace_flat)

lemma angles_one: "flat (angles_expr 1) = [- 50 * (pi / 180)]"
  by (simp add: angles_expr_def elementwise_def linspace_one)

lemma angles_sorted: "sorted_wrt (<) (flat (angles_expr Nan))"
proof (cases "2 \<le> Nan")
  case True
  show ?thesis
  proof (subst sorted_wrt_iff_nth_less, intro allI impI)
    fix i j assume ij: "i < j" "j < length (flat (angles_expr Nan))"
    then have j: "j < Nan" and i: "i < Nan" by (simp_all add: angles_length)
    have "0 < 100 / real (Nan - 1)" using True by simp
    moreover have "real i < real j" using ij by simp
    ultimately have "real i * (100 / real (Nan - 1)) < real j * (100 / real (Nan - 1))"
      by (rule mult_strict_right_mono[rotated])
    then show "flat (angles_expr Nan) ! i < flat (angles_expr Nan) ! j"
      using True i j by (simp add: angles_nth)
  qed
next
  case False
  then have "Nan = 0 \<or> Nan = 1" by arith
  then show ?thesis
    by (auto simp: angles_expr_def elementwise_def linspace_zero linspace_one)
qed


lemma bnd_InrD:
  "bnd m f = (Inr y, t) \<Longrightarrow> \<exists>x t1 t2. m = (Inr x, t1) \<and> f x = (Inr y, t2) \<and> t = t1 @ t2"
  by (auto simp: bnd_def split: prod.splits sum.splits)

lemma step_InrD: "step l a r = (Inr x, t) \<Longrightarrow> r = Inr x \<and> t = [Start l a]"
  by (auto simp: step_def split: sum.splits)

lemma unpack2_InrD: "unpack2 s = Inr (a, b) \<Longrightarrow> s = [a, b]"
  by (cases s rule: unpack2.cases) auto

lemma read_data_InrD:
  assumes "read_data E P = (Inr (data, Nan, Ndetx, angles), t)"
  shows "\<exists>home. Path_home E (environ P) = Inr home
           \<and> np_load E (joinpath home input_parts) = Inr data
           \<and> shape data = [Nan, Ndetx] \<and> angles = angles_expr Nan
           \<and> t = [Start 52 (Call ''Path.home''), ReadFile (joinpath home input_parts),
                  Start 52 (Call ''np.load''), Start 55 (Assign ''Nan, Ndetx''),
                  Start 56 (Assign ''angles'')]"
  using assms unfolding read_data_def
  by (auto simp: ret_def tell_def dest!: bnd_InrD step_InrD unpack2_InrD)

lemma offset_correction_eq:
  "offset_correction data =
     (Inr (- 0.00893, elementwise (\<lambda>x. x - (- 0.00893)) data),
      [Start 59 (Print ''Intensity-offset correction...''), Start 60 (Assign ''offset''),
       Start 61 (Assign ''data'')])"
  by (simp add: offset_correction_def bnd_Inr step_Inr ret_def)

lemma parameters_eq:
  "parameters =
     (Inr (2, NDArray [1] [4], 10, 50),
      [Start 74 (Assign ''Ngv''), Start 75 (Assign ''K''),
       Start 76 (Assign ''lamb''), Start 77 (Assign ''Niter'')])"
  by (simp add: parameters_def bnd_Inr step_Inr ret_def np_ones_def elementwise_def)

lemma geometry_InrD:
  assumes "geometry E Ndetx angles = (Inr (Nx, Nz, pg, vg, pid, W), t)"
  shows "Nx = Ndetx \<and> Nz = Ndetx
           \<and> astra_create_proj_geom E ''parallel'' 1 Ndetx angles = Inr pg
           \<and> astra_create_vol_geom E Ndetx Ndetx = Inr vg
           \<and> astra_create_projector E ''cuda'' pg vg = Inr pid
           \<and> astra_OpTomo E pid = Inr W
           \<and> t = [Start 64 (Print ''Configure projection and volume geometry...''),
                  Start 65 (Assign ''Nx''), Start 66 (Assign ''Nz''),
                  Start 68 (Call ''astra.create_proj_geom''),
                  Start 69 (Call ''astra.create_vol_geom''),
                  Start 70 (Call ''astra.create_projector''),
                  Start 71 (Call ''astra.OpTomo'')]"
  using assms unfolding geometry_def
  by (auto simp: ret_def dest!: bnd_InrD step_InrD)

lemma reshape_InrD: "reshape a s = Inr b \<Longrightarrow> b = NDArray s (flat a) \<and> prod_list s = length (flat a)"
  by (auto simp: reshape_def split: if_splits)

lemma normalization_InrD:
  assumes "normalization data recsirt Nan Ndetx = (Inr (sf, data', p, recsirt'), t)"
  shows "np_max recsirt = Inr sf
           \<and> data' = elementwise (\<lambda>x. np_divide x sf) data
           \<and> p = NDArray [Nan * Ndetx] (map (\<lambda>x. np_divide x sf) (flat data))
           \<and> recsirt' = elementwise (\<lambda>x. np_divide x sf) recsirt
           \<and> t = [Start 84 (Assign ''sf''), Start 85 (Assign ''data''),
                  Start 86 (Assign ''p''), Start 87 (Assign ''recsirt'')]"
  using assms unfolding normalization_def
  by (auto simp: ret_def elementwise_def dest!: bnd_InrD step_InrD reshape_InrD)

lemma initial_reconstruction_InrD:
  assumes "initial_reconstruction E data Nan Ndetx pg vg = (Inr (sf, data', p, recsirt'), t)"
  shows "\<exists>recsirt. SIRT_recon E data 50 pg vg ''cuda'' = Inr recsirt
           \<and> np_max recsirt = Inr sf
           \<and> data' = elementwise (\<lambda>x. np_divide x sf) data
           \<and> p = NDArray [Nan * Ndetx] (map (\<lambda>x. np_divide x sf) (flat data))
           \<and> recsirt' = elementwise (\<lambda>x. np_divide x sf) recsirt
           \<and> t = [Start 80 (Print ''Initial reconstruction...''), Start 81 (Import ''SIRT''),
                  Start 83 (Call ''SIRT.recon''),
                  Start 84 (Assign ''sf''), Start 85 (Assign ''data''),
                  Start 86 (Assign ''p''), Start 87 (Assign ''recsirt'')]"
  using assms unfolding initial_reconstruction_def
  by (auto dest!: bnd_InrD step_InrD normalization_InrD)

lemma parameter_estimation_InrD:
  assumes "parameter_estimation E W p recsirt Ngv K lamb = (Inr (param0, param_esti, gv, K'), t)"
  shows "\<exists>Segrec0. TVRDART_gv2param E (np_linspace 0 1 Ngv) K = Inr param0
           \<and> TVRDART_joint E W p recsirt param0 lamb = Inr (Segrec0, param_esti)
           \<and> TVRDART_param2gv E param_esti = Inr (gv, K')
           \<and> t = [Start 90 (Print ''Parameter estimation...''), Start 91 (Assign ''gv''),
                  Start 92 (Call ''TVRDART.gv2param''), Start 93 (Call ''TVRDART.joint''),
                  Start 94 (Call ''TVRDART.param2gv'')]"
  using assms unfolding parameter_estimation_def
  by (auto simp: ret_def dest!: bnd_InrD step_InrD)

lemma reconstruction_InrD:
  assumes "reconstruction E W p recsirt param_esti lamb Niter gv sf = (Inr (Segrec, rec, gv', recsirt'), t)"
  shows "\<exists>S. TVRDART_recon E W p recsirt param_esti lamb Niter = Inr (S, rec)
           \<and> gv' = elementwise (\<lambda>x. np_multiply x sf) gv
           \<and> recsirt' = elementwise (\<lambda>x. np_multiply x sf) recsirt
           \<and> Segrec = elementwise (\<lambda>x. np_multiply x sf) S
           \<and> t = [Start 97 (Print ''Reconstruction with estimated parameters...''),
                  Start 98 (Call ''TVRDART.recon''), Start 99 (Assign ''gv''),
                  Start 100 (Assign ''recsirt''), Start 101 (Assign ''Segrec'')]"
  using assms unfolding reconstruction_def
  by (auto simp: ret_def dest!: bnd_InrD step_InrD)

lemma plots_InrD:
  assumes "plots E recsirt Segrec = (Inr u, t)"
  shows "t = [Start 105 (Import ''pylab''), Start 107 (Call ''pylab.gray''),
              Start 108 (Call ''pylab.figure''), Start 109 (Call ''pylab.imshow''),
              Start 110 (Call ''pylab.colorbar''), Start 111 (Call ''pylab.title''),
              Start 113 (Call ''pylab.figure''), Start 114 (Call ''pylab.imshow''),
              Start 115 (Call ''pylab.colorbar''), Start 116 (Call ''pylab.title''),
              Start 118 (Call ''pylab.show'')]"
  using assms unfolding plots_def
  by (auto dest!: bnd_InrD step_InrD)

lemma save_results_InrD:
  assumes "save_results E Segrec = (Inr u, t)"
  shows "np_save E output_file Segrec = Inr ()
           \<and> t = [Start 121 (Print ''Saving results...''), Start 122 (Call ''np.save''),
                  Wrote output_file Segrec]"
  using assms unfolding save_results_def
  by (auto simp: tell_def dest!: bnd_InrD step_InrD)

lemma module_imports_InrD:
  assumes "module_imports E = (Inr u, t)"
  shows "t = [Start 46 (Import ''TVRDART''), Start 47 (Import ''astra''),
              Start 48 (Import ''numpy''), Start 49 (Import ''pathlib'')]"
  using assms unfolding module_imports_def
  by (auto dest!: bnd_InrD step_InrD)


lemma started_append: "started (t1 @ t2) = started t1 @ started t2"
  by (simp add: started_def)

lemma exceptions_append: "exceptions (t1 @ t2) = exceptions t1 @ exceptions t2"
  by (simp add: exceptions_def)

lemma files_written_append: "files_written (t1 @ t2) = files_written t1 @ files_written t2"
  by (simp add: files_written_def)

lemma follows_ret: "follows [] (ret x)"
  by (simp add: follows_def ret_def started_def exceptions_def)

lemma follows_step: "follows [(l, a)] (step l a r)"
  by (cases r) (simp_all add: follows_def step_def started_def exceptions_def)

lemma follows_tell_ReadFile: "follows [] (tell (ReadFile f))"
  by (simp add: follows_def tell_def started_def exceptions_def)

lemma follows_tell_Wrote: "follows [] (tell (Wrote f a))"
  by (simp add: follows_def tell_def started_def exceptions_def)

lemma follows_bnd:
  assumes m: "follows L1 m" and f: "\<And>x. follows L2 (f x)"
  shows "follows (L1 @ L2) (bnd m f)"
proof (cases m)
  case (Pair r t)
  show ?thesis
  proof (cases r)
    case (Inl e)
    with Pair m obtain k where k: "k < length L1" "started t = take (Suc k) L1"
      "exceptions t = [(fst (L1 ! k), e)]" "t \<noteq> []" "last t = Raised (fst (L1 ! k)) e"
      by (auto simp: follows_def)
    have b: "bnd m f = (Inl e, t)"
      using Pair Inl by (simp add: bnd_def)
    have "k < length (L1 @ L2) \<and> started t = take (Suc k) (L1 @ L2)
            \<and> exceptions t = [(fst ((L1 @ L2) ! k), e)] \<and> t \<noteq> []
            \<and> last t = Raised (fst ((L1 @ L2) ! k)) e"
      using k by (simp add: nth_append)
    then show ?thesis
      unfolding follows_def b by (simp only: prod.case sum.case) blast
  next
    case (Inr x)
    with Pair m have t: "started t = L1" "exceptions t = []"
      by (auto simp: follows_def)
    obtain r' t' where fx: "f x = (r', t')" by (cases "f x")
    have b: "bnd m f = (r', t @ t')"
      using Pair Inr fx by (simp add: bnd_def)
    show ?thesis
    proof (cases r')
      case (Inl e)
      with f[of x] fx obtain k where k: "k < length L2" "started t' = take (Suc k) L2"
        "exceptions t' = [(fst (L2 ! k), e)]" "t' \<noteq> []" "last t' = Raised (fst (L2 ! k)) e"
        by (auto simp: follows_def)
      have "length L1 + k < length (L1 @ L2)
              \<and> started (t @ t') = take (Suc (length L1 + k)) (L1 @ L2)
              \<and> exceptions (t @ t') = [(fst ((L1 @ L2) ! (length L1 + k)), e)]
              \<and> t @ t' \<noteq> []
              \<and> last (t @ t') = Raised (fst ((L1 @ L2) ! (length L1 + k))) e"
        using k t by (simp add: started_append exceptions_append nth_append)
      then show ?thesis
        unfolding follows_def b Inl by (simp only: prod.case sum.case) blast
    next
      case (Inr y)
      with f[of x] fx have "started t' = L2" "exceptions t' = []"
        by (auto simp: follows_def)
      with b Inr t show ?thesis
        by (simp add: follows_def started_append exceptions_append)
    qed
  qed
qed

lemma follows_step_bnd:
  assumes "\<And>x. follows L (f x)"
  shows "follows ((l, a) # L) (bnd (step l a r) f)"
  using follows_bnd[OF follows_step, of L f l a r] assms by simp

lemma follows_ReadFile_bnd:
  assumes "\<And>x. follows L (f x)"
  shows "follows L (bnd (tell (ReadFile p)) f)"
  using follows_bnd[OF follows_tell_ReadFile, of L f p] assms by simp

lemma follows_module_imports: "follows imports_statements (module_imports E)"
  unfolding module_imports_def imports_statements_def
  by (intro follows_step_bnd follows_step)

lemma follows_read_data: "follows read_data_statements (read_data E P)"
  unfolding read_data_def read_data_statements_def
  by (intro follows_step_bnd follows_ReadFile_bnd | simp only: split_paired_all prod.case follows_ret)+

lemma follows_offset_correction: "follows offset_statements (offset_correction data)"
  unfolding offset_correction_def offset_statements_def
  by (intro follows_step_bnd follows_ret)

lemma follows_geometry: "follows geometry_statements (geometry E Ndetx angles)"
  unfolding geometry_def geometry_statements_def
  by (intro follows_step_bnd follows_ret)

lemma follows_parameters: "follows parameters_statements parameters"
  unfolding parameters_def parameters_statements_def
  by (intro follows_step_bnd follows_ret)

lemma follows_normalization:
  "follows normalization_statements (normalization data recsirt Nan Ndetx)"
  unfolding normalization_def normalization_statements_def
  by (intro follows_step_bnd follows_ret)

lemma follows_initial_reconstruction:
  "follows initial_statements (initial_reconstruction E data Nan Ndetx pg vg)"
  unfolding initial_reconstruction_def initial_statements_def
  by (simp only: append_Cons append_Nil)
     (intro follows_step_bnd follows_normalization)

lemma follows_parameter_estimation:
  "follows estimation_statements (parameter_estimation E W p recsirt Ngv K lamb)"
  unfolding parameter_estimation_def estimation_statements_def
  by (intro follows_step_bnd | simp only: split_paired_all prod.case follows_ret)+

lemma follows_reconstruction:
  "follows reconstruction_statements (reconstruction E W p recsirt prm lamb Niter gv sf)"
  unfolding reconstruction_def reconstruction_statements_def
  by (intro follows_step_bnd | simp only: split_paired_all prod.case follows_ret)+

lemma follows_plots: "follows plots_statements (plots E recsirt Segrec)"
  unfolding plots_def plots_statements_def
  by (intro follows_step_bnd follows_step)

lemma follows_save_results: "follows save_statements (save_results E Segrec)"
  unfolding save_results_def save_statements_def
  by (intro follows_step_bnd follows_tell_Wrote)

lemma follows_from_geometry:
  "follows from_geometry_statements (from_geometry E data Nan Ndetx angles offset)"
  unfolding from_geometry_def from_geometry_statements_def
  by (intro follows_bnd follows_geometry follows_parameters follows_initial_reconstruction
        follows_parameter_estimation follows_reconstruction follows_plots follows_save_results
      | simp only: split_paired_all prod.case follows_ret)+

lemma follows_script: "follows script_statements (script E P)"
  unfolding script_def script_statements_def
  by (intro follows_bnd follows_module_imports follows_read_data follows_offset_correction
      | simp only: split_paired_all prod.case follows_from_geometry)+

subsection \<open>Runs that return\<close>

lemma from_geometry_InrD:
  assumes "from_geometry E data Nan Ndetx angles offset = (Inr g, t)"
  shows "\<exists>recsirt S0 gv0 S t0.
           g_Nan g = Nan \<and> g_Ndetx g = Ndetx \<and> g_angles g = angles \<and> g_offset g = offset
         \<and> g_Nx g = Ndetx \<and> g_Nz g = Ndetx
         \<and> astra_create_proj_geom E ''parallel'' 1 Ndetx angles = Inr (g_proj_geom g)
         \<and> astra_create_vol_geom E Ndetx Ndetx = Inr (g_vol_geom g)
         \<and> astra_create_projector E ''cuda'' (g_proj_geom g) (g_vol_geom g) = Inr (g_proj_id g)
         \<and> astra_OpTomo E (g_proj_id g) = Inr (g_W g)
         \<and> g_Ngv g = 2 \<and> g_lamb g = 10 \<and> g_Niter g = 50
         \<and> SIRT_recon E data 50 (g_proj_geom g) (g_vol_geom g) ''cuda'' = Inr recsirt
         \<and> np_max recsirt = Inr (g_sf g)
         \<and> g_data g = elementwise (\<lambda>x. np_divide x (g_sf g)) data
         \<and> g_p g = NDArray [Nan * Ndetx] (map (\<lambda>x. np_divide x (g_sf g)) (flat data))
         \<and> TVRDART_gv2param E (np_linspace 0 1 2) (NDArray [1] [4]) = Inr (g_param0 g)
         \<and> TVRDART_joint E (g_W g) (g_p g) (elementwise (\<lambda>x. np_divide x (g_sf g)) recsirt)
              (g_param0 g) 10 = Inr (S0, g_param_esti g)
         \<and> TVRDART_param2gv E (g_param_esti g) = Inr (gv0, g_K g)
         \<and> TVRDART_recon E (g_W g) (g_p g) (elementwise (\<lambda>x. np_divide x (g_sf g)) recsirt)
              (g_param_esti g) 10 50 = Inr (S, g_rec g)
         \<and> g_gv g = elementwise (\<lambda>x. np_multiply x (g_sf g)) gv0
         \<and> g_recsirt g = elementwise (\<lambda>x. np_multiply x (g_sf g))
                            (elementwise (\<lambda>x. np_divide x (g_sf g)) recsirt)
         \<and> g_Segrec g = elementwise (\<lambda>x. np_multiply x (g_sf g)) S
         \<and> np_save E output_file (g_Segrec g) = Inr ()
         \<and> t = t0 @ [Wrote output_file (g_Segrec g)] \<and> files_written t0 = []"
  using assms unfolding from_geometry_def
  by (auto simp: ret_def parameters_eq files_written_def
      dest!: bnd_InrD geometry_InrD initial_reconstruction_InrD parameter_estimation_InrD
        reconstruction_InrD plots_InrD save_results_InrD)


lemma script_InrD:
  assumes "script E P = (Inr g, t)"
  shows "\<exists>home d t2.
           Path_home E (environ P) = Inr home
         \<and> np_load E (joinpath home input_parts) = Inr d
         \<and> shape d = [g_Nan g, g_Ndetx g]
         \<and> from_geometry E (elementwise (\<lambda>x. x - (- 0.00893)) d) (g_Nan g) (g_Ndetx g)
              (angles_expr (g_Nan g)) (- 0.00893) = (Inr g, t2)
         \<and> t = [Start 46 (Import ''TVRDART''), Start 47 (Import ''astra''),
                Start 48 (Import ''numpy''), Start 49 (Import ''pathlib''),
                Start 52 (Call ''Path.home''), ReadFile (joinpath home input_parts),
                Start 52 (Call ''np.load''), Start 55 (Assign ''Nan, Ndetx''),
                Start 56 (Assign ''angles''),
                Start 59 (Print ''Intensity-offset correction...''),
                Start 60 (Assign ''offset''), Start 61 (Assign ''data'')] @ t2"
proof -
  from assms obtain u t0 d Nan Ndetx angles t1 off d' t1b t2
    where i: "module_imports E = (Inr u, t0)"
      and r: "read_data E P = (Inr (d, Nan, Ndetx, angles), t1)"
      and oc: "offset_correction d = (Inr (off, d'), t1b)"
      and fg0: "from_geometry E d' Nan Ndetx angles off = (Inr g, t2)"
      and t: "t = t0 @ t1 @ t1b @ t2"
    unfolding script_def by (auto dest!: bnd_InrD)
  from oc have off: "off = - 0.00893" "d' = elementwise (\<lambda>x. x - (- 0.00893)) d"
    and t1b: "t1b = [Start 59 (Print ''Intensity-offset correction...''),
                     Start 60 (Assign ''offset''), Start 61 (Assign ''data'')]"
    by (auto simp: offset_correction_eq)
  from fg0 off have fg: "from_geometry E (elementwise (\<lambda>x. x - (- 0.00893)) d) Nan Ndetx angles
                 (- 0.00893) = (Inr g, t2)"
    by simp
  from from_geometry_InrD[OF fg] have n: "g_Nan g = Nan" "g_Ndetx g = Ndetx"
    by auto
  from read_data_InrD[OF r] obtain home where h: "Path_home E (environ P) = Inr home"
      "np_load E (joinpath home input_parts) = Inr d" "shape d = [Nan, Ndetx]"
      "angles = angles_expr Nan"
      "t1 = [Start 52 (Call ''Path.home''), ReadFile (joinpath home input_parts),
             Start 52 (Call ''np.load''), Start 55 (Assign ''Nan, Ndetx''),
             Start 56 (Assign ''angles'')]"
    by auto
  from module_imports_InrD[OF i] h n fg t t1b show ?thesis
    by auto
qed

lemmas run_defs = script_def example_libs_def example_proc_def module_imports_def
      read_data_def offset_correction_eq from_geometry_def geometry_def parameters_eq
      initial_reconstruction_def normalization_def parameter_estimation_def
      reconstruction_def plots_def save_results_def bnd_Inr bnd_Inl step_Inr step_Inl
      ret_def tell_def posix_home_def joinpath_def input_parts_def output_file_def
      np_max_def np_divide_def reshape_def elementwise_def np_linspace_def Let_def
      angles_expr_def

lemma upt_0_2: "[0..<2] = [0, Suc 0]"
  by (simp add: numeral_2_eq_2 upt_conv_Cons)

lemma replicate_4: "replicate 4 x = [x, x, x, x]"
  by (simp add: numeral_eq_Suc)

lemma example_run:
  "script (example_libs example_sinogram example_sirt) example_proc
     = (Inr example_globals, example_trace)"
  by (simp add: run_defs example_sinogram_def example_sirt_def example_globals_def
      example_trace_def upt_0_2 replicate_4)

subsection \<open>The projection angles and the offset correction\<close>

text \<open>
  Claim C3, as amended.  When the data have been read, the angles are a one-dimensional
  array with as many entries as the sinogram has rows, in strictly increasing order and
  evenly spaced, in radians.  The first entry is \<open>-50 \<pi> / 180\<close> when there is at least
  one row; the last entry is \<open>50 \<pi> / 180\<close> when there are at least two rows.
\<close>

theorem angles_of_read_data:
  assumes "read_data E P = (Inr (data, Nan, Ndetx, angles), t)"
  shows "shape data = [Nan, Ndetx] \<and> shape angles = [Nan] \<and> length (flat angles) = Nan
         \<and> sorted_wrt (<) (flat angles)
         \<and> (\<forall>i. Suc i < Nan \<longrightarrow>
               flat angles ! Suc i - flat angles ! i = (100 / real (Nan - 1)) * (pi / 180))
         \<and> (1 \<le> Nan \<longrightarrow> hd (flat angles) = - 50 * pi / 180)
         \<and> (2 \<le> Nan \<longrightarrow> last (flat angles) = 50 * pi / 180)"
proof -
  from read_data_InrD[OF assms] have s: "shape data = [Nan, Ndetx]"
    and a: "angles = angles_expr Nan" by auto
  have sp: "\<forall>i. Suc i < Nan \<longrightarrow>
               flat angles ! Suc i - flat angles ! i = (100 / real (Nan - 1)) * (pi / 180)"
  proof (intro allI impI)
    fix i assume i: "Suc i < Nan"
    then have n: "2 \<le> Nan" "i < Nan" by simp_all
    define c where "c = 100 / real (Nan - 1)"
    have "flat angles ! Suc i = (- 50 + real (Suc i) * c) * (pi / 180)"
      unfolding a c_def using n(1) i by (rule angles_nth)
    moreover have "flat angles ! i = (- 50 + real i * c) * (pi / 180)"
      unfolding a c_def using n by (rule angles_nth)
    ultimately have "flat angles ! Suc i - flat angles ! i = c * (pi / 180)"
      by (simp add: algebra_simps)
    then show "flat angles ! Suc i - flat angles ! i = (100 / real (Nan - 1)) * (pi / 180)"
      by (simp only: c_def)
  qed
  have h: "1 \<le> Nan \<longrightarrow> hd (flat angles) = - 50 * pi / 180"
  proof
    assume n: "1 \<le> Nan"
    then have ne: "flat angles \<noteq> []" using angles_length[of Nan] a by auto
    show "hd (flat angles) = - 50 * pi / 180"
    proof (cases "Nan = 1")
      case True
      then show ?thesis using a angles_one by simp
    next
      case False
      with n have "2 \<le> Nan" "0 < Nan" by simp_all
      then have "flat angles ! 0 = - 50 * pi / 180"
        unfolding a by (simp add: angles_nth)
      with ne show ?thesis by (simp add: hd_conv_nth)
    qed
  qed
  have l: "2 \<le> Nan \<longrightarrow> last (flat angles) = 50 * pi / 180"
  proof
    assume n: "2 \<le> Nan"
    then have ne: "flat angles \<noteq> []" using angles_length[of Nan] a by auto
    have "real (Nan - 1) \<noteq> 0" using n by simp
    moreover have "\<And>x y :: real. x \<noteq> 0 \<Longrightarrow> x * (y / x) = y" by simp
    ultimately have c: "real (Nan - 1) * (100 / real (Nan - 1)) = 100"
      by blast
    have "flat angles ! (Nan - 1) = (- 50 + real (Nan - 1) * (100 / real (Nan - 1))) * (pi / 180)"
      unfolding a using n by (intro angles_nth) simp_all
    then have "flat angles ! (Nan - 1) = 50 * pi / 180"
      by (simp only: c) simp
    with ne show "last (flat angles) = 50 * pi / 180"
      using angles_length[of Nan] a by (simp add: last_conv_nth)
  qed
  from s sp h l show ?thesis
    unfolding a by (simp add: angles_shape angles_length angles_sorted)
qed


lemma example_read_data:
  "read_data (example_libs example_sinogram example_sirt) example_proc =
     (Inr (example_sinogram, 2, 2, angles_expr 2),
      [Start 52 (Call ''Path.home''),
       ReadFile ''/home/u/Documents/GitHub/ContributedTools/nanotube2d.npy'',
       Start 52 (Call ''np.load''), Start 55 (Assign ''Nan, Ndetx''),
       Start 56 (Assign ''angles'')])"
  by (simp add: read_data_def example_libs_def example_proc_def posix_home_def joinpath_def
      input_parts_def bnd_Inr step_Inr tell_def ret_def example_sinogram_def)

theorem angles_of_read_data_witness:
  "read_data (example_libs example_sinogram example_sirt) example_proc =
     (Inr (example_sinogram, 2, 2, angles_expr 2),
      [Start 52 (Call ''Path.home''),
       ReadFile ''/home/u/Documents/GitHub/ContributedTools/nanotube2d.npy'',
       Start 52 (Call ''np.load''), Start 55 (Assign ''Nan, Ndetx''),
       Start 56 (Assign ''angles'')])
   \<and> length (flat (angles_expr 2)) = 2
   \<and> flat (angles_expr 2) ! 1 - flat (angles_expr 2) ! 0 = 100 * (pi / 180)
   \<and> hd (flat (angles_expr 2)) = - 50 * pi / 180
   \<and> last (flat (angles_expr 2)) = 50 * pi / 180"
  using angles_of_read_data[OF example_read_data] example_read_data
  by simp

text \<open>
  For a sinogram with a single row the angles are the single value \<open>-50 \<pi> / 180\<close>:
  the array does not reach \<open>50 \<pi> / 180\<close>.
\<close>

theorem angles_one_row_counterexample:
  "fst (read_data (example_libs (NDArray [1, 2] [1, 2]) example_sirt) example_proc) =
     Inr (NDArray [1, 2] [1, 2], 1, 2, NDArray [1] [- 50 * (pi / 180)])
   \<and> last (flat (NDArray [1] [- 50 * (pi / 180)])) \<noteq> 50 * (pi / 180)"
  by (simp add: read_data_def example_libs_def example_proc_def posix_home_def joinpath_def
      input_parts_def bnd_Inr step_Inr tell_def ret_def angles_expr_def elementwise_def
      np_linspace_def Let_def)




subsection \<open>The normalisation and the rescaling\<close>

lemma np_max_InrD:
  assumes "np_max a = Inr m"
  shows "flat a \<noteq> [] \<and> m = Max (set (flat a))"
proof (cases "flat a")
  case Nil
  with assms show ?thesis by (simp add: np_max_def)
next
  case (Cons x xs)
  with assms have "m = fold max xs x" by (simp add: np_max_def)
  with Cons show ?thesis by (simp only: Max.set_eq_fold) simp
qed

lemma np_max_zero:
  assumes "np_max a = Inr m" and "\<forall>x\<in>set (flat a). x = 0"
  shows "m = 0"
proof -
  from np_max_InrD[OF assms(1)] have ne: "flat a \<noteq> []" and m: "m = Max (set (flat a))"
    by simp_all
  from ne have "Max (set (flat a)) \<in> set (flat a)" by (intro Max_in) simp_all
  with assms(2) m show ?thesis by simp
qed

lemma normalization_eq:
  assumes "np_max recsirt = Inr sf" and "length (flat data) = Nan * Ndetx"
  shows "normalization data recsirt Nan Ndetx =
           (Inr (sf, elementwise (\<lambda>x. np_divide x sf) data,
                 NDArray [Nan * Ndetx] (map (\<lambda>x. np_divide x sf) (flat data)),
                 elementwise (\<lambda>x. np_divide x sf) recsirt),
            [Start 84 (Assign ''sf''), Start 85 (Assign ''data''),
             Start 86 (Assign ''p''), Start 87 (Assign ''recsirt'')])"
  using assms
  by (simp add: normalization_def bnd_Inr step_Inr ret_def reshape_def elementwise_def)

text \<open>
  Claim C9.  The normalisation divides the sinogram and the SIRT reconstruction by
  \<open>sf\<close>, the maximum of the SIRT reconstruction, whatever \<open>sf\<close> is: no exception is
  raised.  When \<open>sf\<close> is not zero every quotient is the finite number \<open>x / sf\<close>; when
  \<open>sf\<close> is zero, as it is when the SIRT reconstruction is zero everywhere, every
  element has been divided by zero and none is finite.
\<close>

theorem normalization_unguarded:
  assumes "np_max recsirt = Inr sf" and "length (flat data) = Nan * Ndetx"
  shows "\<exists>data' p recsirt'.
           fst (normalization data recsirt Nan Ndetx) = Inr (sf, data', p, recsirt')
         \<and> (sf \<noteq> 0 \<longrightarrow> flat data' = map (\<lambda>x. Fin (x / sf)) (flat data)
                       \<and> flat recsirt' = map (\<lambda>x. Fin (x / sf)) (flat recsirt))
         \<and> (sf = 0 \<longrightarrow> flat data' = map (\<lambda>x. NonFinite) (flat data)
                       \<and> flat recsirt' = map (\<lambda>x. NonFinite) (flat recsirt))
         \<and> ((\<forall>x\<in>set (flat recsirt). x = 0) \<longrightarrow> sf = 0)"
  using normalization_eq[OF assms] np_max_zero[OF assms(1)]
  by (auto simp: elementwise_def np_divide_def)

theorem normalization_unguarded_witness:
  "np_max (NDArray [2, 2] [0, 0, 0, 0]) = Inr 0
   \<and> length (flat example_sinogram) = 2 * 2
   \<and> fst (normalization example_sinogram (NDArray [2, 2] [0, 0, 0, 0]) 2 2) =
       Inr (0, NDArray [2, 2] [NonFinite, NonFinite, NonFinite, NonFinite],
            NDArray [4] [NonFinite, NonFinite, NonFinite, NonFinite],
            NDArray [2, 2] [NonFinite, NonFinite, NonFinite, NonFinite])"
proof -
  have m: "np_max (NDArray [2, 2] [0, 0, 0, 0]) = Inr 0"
    by (simp add: np_max_def)
  have l: "length (flat example_sinogram) = 2 * 2"
    by (simp add: example_sinogram_def)
  from normalization_unguarded[OF m l] m l show ?thesis
    by (simp add: normalization_eq example_sinogram_def elementwise_def np_divide_def)
qed

lemma roundtrip_elem: "sf \<noteq> 0 \<Longrightarrow> np_multiply (np_divide x sf) sf = Fin x"
  by (simp add: np_divide_def)

lemma roundtrip_array:
  "sf \<noteq> 0 \<Longrightarrow>
     elementwise (\<lambda>x. np_multiply x sf) (elementwise (\<lambda>x. np_divide x sf) a)
       = elementwise Fin a"
  by (simp add: elementwise_def roundtrip_elem)

lemma normalized_has_max:
  assumes "np_max a = Inr sf" and "0 < sf"
  shows "has_max (elementwise (\<lambda>x. np_divide x sf) a) 1"
proof -
  from np_max_InrD[OF assms(1)] have ne: "flat a \<noteq> []" and m: "sf = Max (set (flat a))"
    by simp_all
  from ne have "Max (set (flat a)) \<in> set (flat a)" by (intro Max_in) simp_all
  with m have "sf \<in> set (flat a)" by simp
  then have "np_divide sf sf \<in> set (flat (elementwise (\<lambda>x. np_divide x sf) a))"
    by (simp add: elementwise_def)
  moreover have "np_divide sf sf = Fin 1" using assms(2) by (simp add: np_divide_def)
  ultimately have one: "Fin 1 \<in> set (flat (elementwise (\<lambda>x. np_divide x sf) a))" by simp
  have "\<forall>y\<in>set (flat (elementwise (\<lambda>x. np_divide x sf) a)). \<exists>v. y = Fin v \<and> v \<le> 1"
  proof
    fix y assume "y \<in> set (flat (elementwise (\<lambda>x. np_divide x sf) a))"
    then obtain x where x: "x \<in> set (flat a)" "y = np_divide x sf"
      by (auto simp: elementwise_def)
    from x(1) m have "x \<le> sf" by simp
    with assms(2) have "x / sf \<le> 1" by (simp add: divide_le_eq)
    with x(2) assms(2) show "\<exists>v. y = Fin v \<and> v \<le> 1" by (simp add: np_divide_def)
  qed
  with one show ?thesis by (simp add: has_max_def)
qed


text \<open>
  Claim C10, as amended.  In a run that returns with \<open>sf\<close> not zero, the final
  rescaling multiplies the normalised SIRT reconstruction, the estimated gray values and
  the segmented reconstruction by the same \<open>sf\<close> that the normalisation divided by,
  the rescaled SIRT reconstruction is the array that \<open>SIRT.recon\<close> returned (dividing
  by \<open>sf\<close> and multiplying by \<open>sf\<close> gives back every array), and when \<open>sf\<close> is
  positive the maximum of the normalised SIRT reconstruction is 1.
\<close>

theorem rescale_restores_sirt:
  assumes "script E P = (Inr g, t)" and "g_sf g \<noteq> 0"
  shows "\<exists>d recsirt gv0 S.
           SIRT_recon E (elementwise (\<lambda>x. x - (- 0.00893)) d) 50 (g_proj_geom g)
             (g_vol_geom g) ''cuda'' = Inr recsirt
         \<and> np_max recsirt = Inr (g_sf g)
         \<and> g_recsirt g = elementwise Fin recsirt
         \<and> TVRDART_recon E (g_W g) (g_p g) (elementwise (\<lambda>x. np_divide x (g_sf g)) recsirt)
              (g_param_esti g) 10 50 = Inr (S, g_rec g)
         \<and> g_Segrec g = elementwise (\<lambda>x. np_multiply x (g_sf g)) S
         \<and> TVRDART_param2gv E (g_param_esti g) = Inr (gv0, g_K g)
         \<and> g_gv g = elementwise (\<lambda>x. np_multiply x (g_sf g)) gv0
         \<and> (\<forall>a. elementwise (\<lambda>x. np_multiply x (g_sf g))
                  (elementwise (\<lambda>x. np_divide x (g_sf g)) a) = elementwise Fin a)
         \<and> (0 < g_sf g \<longrightarrow> has_max (elementwise (\<lambda>x. np_divide x (g_sf g)) recsirt) 1)"
proof -
  from script_InrD[OF assms(1)] obtain d t2
    where fg: "from_geometry E (elementwise (\<lambda>x. x - (- 0.00893)) d) (g_Nan g) (g_Ndetx g)
                 (angles_expr (g_Nan g)) (- 0.00893) = (Inr g, t2)"
    by blast
  from from_geometry_InrD[OF fg] obtain recsirt gv0 S
    where s: "SIRT_recon E (elementwise (\<lambda>x. x - (- 0.00893)) d) 50 (g_proj_geom g)
                (g_vol_geom g) ''cuda'' = Inr recsirt"
      and m: "np_max recsirt = Inr (g_sf g)"
      and r: "g_recsirt g = elementwise (\<lambda>x. np_multiply x (g_sf g))
                              (elementwise (\<lambda>x. np_divide x (g_sf g)) recsirt)"
      and c: "TVRDART_recon E (g_W g) (g_p g)
                (elementwise (\<lambda>x. np_divide x (g_sf g)) recsirt) (g_param_esti g) 10 50
                = Inr (S, g_rec g)"
      and sg: "g_Segrec g = elementwise (\<lambda>x. np_multiply x (g_sf g)) S"
      and pg: "TVRDART_param2gv E (g_param_esti g) = Inr (gv0, g_K g)"
      and gv: "g_gv g = elementwise (\<lambda>x. np_multiply x (g_sf g)) gv0"
    by blast
  from r assms(2) have r': "g_recsirt g = elementwise Fin recsirt"
    by (simp add: roundtrip_array)
  have all: "\<forall>a. elementwise (\<lambda>x. np_multiply x (g_sf g))
                  (elementwise (\<lambda>x. np_divide x (g_sf g)) a) = elementwise Fin a"
    using assms(2) by (simp add: roundtrip_array)
  have mx: "0 < g_sf g \<longrightarrow> has_max (elementwise (\<lambda>x. np_divide x (g_sf g)) recsirt) 1"
    using normalized_has_max[OF m] by blast
  from s m r' c sg pg gv all mx show ?thesis by blast
qed

theorem rescale_restores_sirt_witness:
  "script (example_libs example_sinogram example_sirt) example_proc
     = (Inr example_globals, example_trace)
   \<and> g_sf example_globals \<noteq> 0
   \<and> g_recsirt example_globals = elementwise Fin example_sirt
   \<and> has_max (elementwise (\<lambda>x. np_divide x (g_sf example_globals)) example_sirt) 1"
proof -
  have nz: "g_sf example_globals \<noteq> 0" by (simp add: example_globals_def)
  from rescale_restores_sirt[OF example_run nz] obtain d recsirt
    where s: "SIRT_recon (example_libs example_sinogram example_sirt)
                (elementwise (\<lambda>x. x - (- 0.00893)) d) 50 (g_proj_geom example_globals)
                (g_vol_geom example_globals) ''cuda'' = Inr recsirt"
      and r: "g_recsirt example_globals = elementwise Fin recsirt"
      and mx: "0 < g_sf example_globals \<longrightarrow>
                 has_max (elementwise (\<lambda>x. np_divide x (g_sf example_globals)) recsirt) 1"
    by blast
  from s have "recsirt = example_sirt" by (simp add: example_libs_def)
  moreover have "0 < g_sf example_globals" by (simp add: example_globals_def)
  ultimately show ?thesis using example_run nz r mx by simp
qed

text \<open>
  When the maximum of the SIRT reconstruction is negative, it is not zero, and the
  maximum of the normalised reconstruction is not 1: for the values \<open>-2\<close> and \<open>-4\<close> the
  normalised values are 1 and 2.
\<close>

theorem negative_max_counterexample:
  "fst (normalization (NDArray [1, 2] [3, 5]) (NDArray [1, 2] [- 2, - 4]) 1 2) =
     Inr (- 2, NDArray [1, 2] [Fin (- 3 / 2), Fin (- 5 / 2)],
          NDArray [2] [Fin (- 3 / 2), Fin (- 5 / 2)], NDArray [1, 2] [Fin 1, Fin 2])
   \<and> (- 2 :: real) \<noteq> 0
   \<and> \<not> has_max (NDArray [1, 2] [Fin 1, Fin 2]) 1"
  by (simp add: normalization_def bnd_Inr step_Inr ret_def np_max_def reshape_def
      elementwise_def np_divide_def has_max_def)

subsection \<open>The order of the statements and the propagation of exceptions\<close>

lemma follows_prefix: "follows L c \<Longrightarrow> prefix (started (snd c)) L"
  by (cases c) (auto simp: follows_def take_is_prefix split: sum.splits)

lemma follows_Inr: "follows L c \<Longrightarrow> fst c = Inr x \<Longrightarrow> started (snd c) = L \<and> exceptions (snd c) = []"
  by (cases c) (auto simp: follows_def)

lemma follows_Inl:
  "follows L c \<Longrightarrow> fst c = Inl e \<Longrightarrow>
     \<exists>k<length L. started (snd c) = take (Suc k) L \<and> exceptions (snd c) = [(fst (L ! k), e)]
        \<and> snd c \<noteq> [] \<and> last (snd c) = Raised (fst (L ! k)) e"
  by (cases c) (auto simp: follows_def)

lemma Raised_in_exceptions: "Raised l e \<in> set t \<Longrightarrow> (l, e) \<in> set (exceptions t)"
  by (induction t) (auto simp: exceptions_def)

lemma remdups_adj_head: "prefix [x] (remdups_adj (x # zs))"
  by (induction zs) auto

lemma remdups_adj_prefix: "prefix (remdups_adj xs) (remdups_adj (xs @ ys))"
proof (induction xs rule: remdups_adj.induct)
  case 1
  then show ?case by simp
next
  case (2 x)
  then show ?case using remdups_adj_head[of x ys] by simp
next
  case (3 x y xs)
  then show ?case by auto
qed

lemma stages_of_prefix:
  assumes "prefix xs L"
  shows "prefix (stages_of xs) (stages_of L)"
proof -
  from assms obtain ys where "L = xs @ ys" by (auto simp: prefix_def)
  then show ?thesis by (simp add: stages_of_def remdups_adj_prefix)
qed

lemmas statements_defs = script_statements_def imports_statements_def
  read_data_statements_def offset_statements_def from_geometry_statements_def
  geometry_statements_def parameters_statements_def initial_statements_def
  normalization_statements_def estimation_statements_def reconstruction_statements_def
  plots_statements_def save_statements_def

lemma stages_of_script_statements: "stages_of script_statements = all_stages"
  by (simp add: statements_defs stages_of_def stage_of_line_def all_stages_def)

lemma distinct_all_stages: "distinct all_stages"
  by (simp add: all_stages_def)

lemma sorted_script_lines: "sorted (map fst script_statements)"
  by (simp add: statements_defs)

lemma distinct_script_statements: "distinct script_statements"
  by (simp add: statements_defs)


lemma example_started: "started example_trace = script_statements"
  by (simp add: example_trace_def started_def statements_defs)

text \<open>
  Claim C6.  In every run the statements start in the order of the source, each at most
  once, so the stages of a run are an initial part of the list: load the data, correct
  the intensity offset, construct the geometry, initial SIRT reconstruction, parameter
  estimation, final reconstruction, rescaling, plots, saving.  A run that returns has
  started every statement exactly once, and its stages are exactly this list, each of
  them once.
\<close>

theorem stages_once_in_order:
  "prefix (started (snd (script E P))) script_statements
   \<and> prefix (stages_of (started (snd (script E P)))) all_stages
   \<and> (\<forall>g. fst (script E P) = Inr g \<longrightarrow>
          started (snd (script E P)) = script_statements
        \<and> stages_of (started (snd (script E P))) = all_stages)
   \<and> distinct script_statements \<and> sorted (map fst script_statements)
   \<and> distinct all_stages"
proof -
  have p: "prefix (started (snd (script E P))) script_statements"
    using follows_script by (rule follows_prefix)
  from stages_of_prefix[OF p]
  have q: "prefix (stages_of (started (snd (script E P)))) all_stages"
    by (simp add: stages_of_script_statements)
  have r: "\<forall>g. fst (script E P) = Inr g \<longrightarrow>
          started (snd (script E P)) = script_statements
        \<and> stages_of (started (snd (script E P))) = all_stages"
    using follows_Inr[OF follows_script] by (auto simp: stages_of_script_statements)
  from p q r distinct_script_statements sorted_script_lines distinct_all_stages
  show ?thesis by blast
qed

theorem stages_once_in_order_witness:
  "fst (script (example_libs example_sinogram example_sirt) example_proc) = Inr example_globals
   \<and> stages_of (started example_trace) =
       [LoadData, OffsetCorrection, Geometry, InitialSIRT, ParameterEstimation,
        FinalReconstruction, Rescale, Visualize, SaveResult]"
  using stages_once_in_order[of "example_libs example_sinogram example_sirt" example_proc]
  by (simp add: example_run all_stages_def stages_of_script_statements)

lemma quiet_step: "files_written (snd (step l a r)) = []"
  by (cases r) (simp_all add: step_def files_written_def)

lemma quiet_ret: "files_written (snd (ret x)) = []"
  by (simp add: ret_def files_written_def)

lemma quiet_ReadFile: "files_written (snd (tell (ReadFile f))) = []"
  by (simp add: tell_def files_written_def)

lemma quiet_bnd:
  assumes "files_written (snd m) = []" and "\<And>x. files_written (snd (f x)) = []"
  shows "files_written (snd (bnd m f)) = []"
proof (cases m)
  case (Pair r t)
  with assms show ?thesis
    by (cases r) (simp_all add: bnd_Inl bnd_Inr files_written_append)
qed

lemma quiet_module_imports: "files_written (snd (module_imports E)) = []"
  unfolding module_imports_def by (intro quiet_bnd quiet_step)

lemma quiet_read_data: "files_written (snd (read_data E P)) = []"
  unfolding read_data_def
  by (intro quiet_bnd quiet_step quiet_ReadFile
      | simp only: split_paired_all prod.case quiet_ret)+

lemma quiet_offset_correction: "files_written (snd (offset_correction data)) = []"
  by (simp add: offset_correction_eq files_written_def)

lemma quiet_geometry: "files_written (snd (geometry E Ndetx angles)) = []"
  unfolding geometry_def by (intro quiet_bnd quiet_step quiet_ret)

lemma quiet_parameters: "files_written (snd parameters) = []"
  by (simp add: parameters_eq files_written_def)

lemma quiet_normalization: "files_written (snd (normalization data recsirt Nan Ndetx)) = []"
  unfolding normalization_def by (intro quiet_bnd quiet_step quiet_ret)

lemma quiet_initial_reconstruction:
  "files_written (snd (initial_reconstruction E data Nan Ndetx pg vg)) = []"
  unfolding initial_reconstruction_def by (intro quiet_bnd quiet_step quiet_normalization)

lemma quiet_parameter_estimation:
  "files_written (snd (parameter_estimation E W p recsirt Ngv K lamb)) = []"
  unfolding parameter_estimation_def
  by (intro quiet_bnd quiet_step | simp only: split_paired_all prod.case quiet_ret)+

lemma quiet_reconstruction:
  "files_written (snd (reconstruction E W p recsirt prm lamb Niter gv sf)) = []"
  unfolding reconstruction_def
  by (intro quiet_bnd quiet_step | simp only: split_paired_all prod.case quiet_ret)+

lemma quiet_plots: "files_written (snd (plots E recsirt Segrec)) = []"
  unfolding plots_def by (intro quiet_bnd quiet_step)

text \<open>The files that a computation has written are the one output file, holding the
  segmented reconstruction, when it returns, and none when it raises.\<close>

lemma written_save_results:
  assumes "g_Segrec G = S"
  shows "files_written (snd (bnd (save_results E S) (\<lambda>_. ret G))) =
           (case fst (bnd (save_results E S) (\<lambda>_. ret G)) of
              Inr g \<Rightarrow> [(output_file, g_Segrec g)] | Inl e \<Rightarrow> [])"
  using assms
  by (cases "np_save E output_file S")
     (simp_all add: save_results_def bnd_Inr bnd_Inl step_Inr step_Inl tell_def ret_def
        files_written_def)

lemma written_bnd:
  assumes "files_written (snd m) = []"
    and "\<And>x. files_written (snd (f x)) =
               (case fst (f x) of Inr g \<Rightarrow> [(output_file, g_Segrec g)] | Inl e \<Rightarrow> [])"
  shows "files_written (snd (bnd m f)) =
           (case fst (bnd m f) of Inr g \<Rightarrow> [(output_file, g_Segrec g)] | Inl e \<Rightarrow> [])"
proof (cases m)
  case (Pair r t)
  with assms show ?thesis
    by (cases r) (simp_all add: bnd_Inl bnd_Inr files_written_append)
qed

lemma written_from_geometry:
  "files_written (snd (from_geometry E data Nan Ndetx angles offset)) =
     (case fst (from_geometry E data Nan Ndetx angles offset) of
        Inr g \<Rightarrow> [(output_file, g_Segrec g)] | Inl e \<Rightarrow> [])"
  unfolding from_geometry_def
  by ((rule written_save_results, simp)
      | rule written_bnd quiet_geometry quiet_parameters quiet_initial_reconstruction
          quiet_parameter_estimation quiet_reconstruction quiet_plots
      | simp only: split_paired_all prod.case)+

lemma written_script:
  "files_written (snd (script E P)) =
     (case fst (script E P) of Inr g \<Rightarrow> [(output_file, g_Segrec g)] | Inl e \<Rightarrow> [])"
  unfolding script_def
  by (intro written_bnd quiet_module_imports quiet_read_data quiet_offset_correction
      | simp only: split_paired_all prod.case written_from_geometry)+

text \<open>
  Claim C5.  Nothing in the script catches an exception.  When a statement raises, the
  exception is the result of the run and the last thing that happens: the statements
  after it are never started, no statement has been started twice, and no file has been
  written.
\<close>

theorem exceptions_propagate:
  assumes "Raised l e \<in> set (snd (script E P))"
  shows "fst (script E P) = Inl e
       \<and> last (snd (script E P)) = Raised l e
       \<and> exceptions (snd (script E P)) = [(l, e)]
       \<and> (\<exists>k<length script_statements. fst (script_statements ! k) = l
            \<and> started (snd (script E P)) = take (Suc k) script_statements)
       \<and> distinct (started (snd (script E P)))
       \<and> files_written (snd (script E P)) = []"
proof (cases "fst (script E P)")
  case (Inr g)
  from follows_Inr[OF follows_script Inr] have "exceptions (snd (script E P)) = []"
    by simp
  with Raised_in_exceptions[OF assms] show ?thesis by simp
next
  case (Inl e')
  from follows_Inl[OF follows_script Inl] obtain k
    where k: "k < length script_statements"
      "started (snd (script E P)) = take (Suc k) script_statements"
      "exceptions (snd (script E P)) = [(fst (script_statements ! k), e')]"
      "last (snd (script E P)) = Raised (fst (script_statements ! k)) e'"
    by blast
  from Raised_in_exceptions[OF assms] k(3)
  have le: "l = fst (script_statements ! k)" "e = e'" by simp_all
  have d: "distinct (started (snd (script E P)))"
    unfolding k(2) using distinct_script_statements by (rule distinct_take)
  have w: "files_written (snd (script E P)) = []"
    using Inl by (simp add: written_script)
  from Inl k le d w show ?thesis by blast
qed

lemma example_missing_file:
  "script (example_libs example_sinogram example_sirt)
     \<lparr> argv = [''s01_recon2D.py''], environ = [(''HOME'', ''/home/v'')] \<rparr>
   = (Inl FileNotFoundError,
      [Start 46 (Import ''TVRDART''), Start 47 (Import ''astra''),
       Start 48 (Import ''numpy''), Start 49 (Import ''pathlib''),
       Start 52 (Call ''Path.home''),
       ReadFile ''/home/v/Documents/GitHub/ContributedTools/nanotube2d.npy'',
       Start 52 (Call ''np.load''), Raised 52 FileNotFoundError])"
  by (simp add: script_def module_imports_def read_data_def example_libs_def posix_home_def
      joinpath_def input_parts_def bnd_Inr bnd_Inl step_Inr step_Inl tell_def)

theorem exceptions_propagate_witness:
  "Raised 52 FileNotFoundError
     \<in> set (snd (script (example_libs example_sinogram example_sirt)
                   \<lparr> argv = [''s01_recon2D.py''], environ = [(''HOME'', ''/home/v'')] \<rparr>))
   \<and> fst (script (example_libs example_sinogram example_sirt)
            \<lparr> argv = [''s01_recon2D.py''], environ = [(''HOME'', ''/home/v'')] \<rparr>)
       = Inl FileNotFoundError
   \<and> files_written (snd (script (example_libs example_sinogram example_sirt)
            \<lparr> argv = [''s01_recon2D.py''], environ = [(''HOME'', ''/home/v'')] \<rparr>)) = []"
proof -
  have r: "Raised 52 FileNotFoundError
     \<in> set (snd (script (example_libs example_sinogram example_sirt)
                   \<lparr> argv = [''s01_recon2D.py''], environ = [(''HOME'', ''/home/v'')] \<rparr>))"
    by (simp add: example_missing_file)
  from exceptions_propagate[OF r] r show ?thesis by blast
qed

subsection \<open>The file written and the projector\<close>

text \<open>
  Claim C4.  The files written by a run are none when the run raises and exactly one
  when it returns: the output file, holding the segmented reconstruction, which is the
  first array returned by the final \<open>TVRDART.recon\<close> multiplied by \<open>sf\<close>.  The SIRT
  reconstruction and the continuous reconstruction are written nowhere.
\<close>

theorem only_segmented_saved:
  "files_written (snd (script E P)) =
     (case fst (script E P) of Inr g \<Rightarrow> [(output_file, g_Segrec g)] | Inl e \<Rightarrow> [])
   \<and> output_file = ''TVRDART2Dreconstruction.npy''
   \<and> (\<forall>g. fst (script E P) = Inr g \<longrightarrow>
         (\<exists>d recsirt S.
             SIRT_recon E (elementwise (\<lambda>x. x - (- 0.00893)) d) 50 (g_proj_geom g)
               (g_vol_geom g) ''cuda'' = Inr recsirt
           \<and> TVRDART_recon E (g_W g) (g_p g)
               (elementwise (\<lambda>x. np_divide x (g_sf g)) recsirt) (g_param_esti g) 10 50
               = Inr (S, g_rec g)
           \<and> g_Segrec g = elementwise (\<lambda>x. np_multiply x (g_sf g)) S
           \<and> np_save E output_file (g_Segrec g) = Inr ()))"
proof -
  have "\<exists>d recsirt S.
             SIRT_recon E (elementwise (\<lambda>x. x - (- 0.00893)) d) 50 (g_proj_geom g)
               (g_vol_geom g) ''cuda'' = Inr recsirt
           \<and> TVRDART_recon E (g_W g) (g_p g)
               (elementwise (\<lambda>x. np_divide x (g_sf g)) recsirt) (g_param_esti g) 10 50
               = Inr (S, g_rec g)
           \<and> g_Segrec g = elementwise (\<lambda>x. np_multiply x (g_sf g)) S
           \<and> np_save E output_file (g_Segrec g) = Inr ()"
    if "fst (script E P) = Inr g" for g
  proof -
    from that have "script E P = (Inr g, snd (script E P))"
      by (metis prod.collapse)
    from script_InrD[OF this] obtain d t2
      where fg: "from_geometry E (elementwise (\<lambda>x. x - (- 0.00893)) d) (g_Nan g) (g_Ndetx g)
                   (angles_expr (g_Nan g)) (- 0.00893) = (Inr g, t2)"
      by blast
    from from_geometry_InrD[OF fg] show ?thesis by blast
  qed
  then show ?thesis
    by (simp add: written_script output_file_def)
qed

theorem only_segmented_saved_witness:
  "fst (script (example_libs example_sinogram example_sirt) example_proc) = Inr example_globals
   \<and> files_written example_trace =
       [(''TVRDART2Dreconstruction.npy'', NDArray [2, 2] [Fin 0, Fin 0, Fin 0, Fin 0])]
   \<and> g_Segrec example_globals = NDArray [2, 2] [Fin 0, Fin 0, Fin 0, Fin 0]"
  using only_segmented_saved[of "example_libs example_sinogram example_sirt" example_proc]
  by (simp add: example_run output_file_def example_globals_def)

lemma calls_of_append: "calls_of (xs @ ys) = calls_of xs @ calls_of ys"
  by (simp add: calls_of_def)

lemma calls_of_script_statements:
  "calls_of script_statements =
     [''Path.home'', ''np.load'', ''astra.create_proj_geom'', ''astra.create_vol_geom'',
      ''astra.create_projector'', ''astra.OpTomo'', ''SIRT.recon'', ''TVRDART.gv2param'',
      ''TVRDART.joint'', ''TVRDART.param2gv'', ''TVRDART.recon'', ''pylab.gray'',
      ''pylab.figure'', ''pylab.imshow'', ''pylab.colorbar'', ''pylab.title'',
      ''pylab.figure'', ''pylab.imshow'', ''pylab.colorbar'', ''pylab.title'',
      ''pylab.show'', ''np.save'']"
  by (simp add: statements_defs calls_of_def)

lemma count_create_projector:
  "count_list (calls_of script_statements) ''astra.create_projector'' = 1"
  by (simp add: calls_of_script_statements)

lemma no_release_in_script:
  "set (calls_of script_statements) \<inter> set release_functions = {}"
  by (simp add: calls_of_script_statements release_functions_def)

text \<open>
  Claim C8.  A run calls \<open>astra.create_projector\<close> at most once, exactly once when it
  returns, and calls none of the functions that delete a projector: the script never
  releases the handle.
\<close>

theorem projector_created_once:
  "count_list (calls (snd (script E P))) ''astra.create_projector'' \<le> 1
   \<and> (\<forall>g. fst (script E P) = Inr g \<longrightarrow>
          count_list (calls (snd (script E P))) ''astra.create_projector'' = 1)
   \<and> set (calls (snd (script E P))) \<inter> set release_functions = {}"
proof -
  have "prefix (started (snd (script E P))) script_statements"
    using follows_script by (rule follows_prefix)
  then obtain ys where ys: "script_statements = started (snd (script E P)) @ ys"
    by (auto simp: prefix_def)
  then have c: "calls_of script_statements = calls (snd (script E P)) @ calls_of ys"
    by (simp add: calls_def calls_of_append[symmetric])
  have "count_list (calls_of script_statements) ''astra.create_projector''
          = count_list (calls (snd (script E P))) ''astra.create_projector''
            + count_list (calls_of ys) ''astra.create_projector''"
    by (simp only: c count_list_append)
  with count_create_projector
  have le: "count_list (calls (snd (script E P))) ''astra.create_projector'' \<le> 1"
    by simp
  have eq: "\<forall>g. fst (script E P) = Inr g \<longrightarrow>
          count_list (calls (snd (script E P))) ''astra.create_projector'' = 1"
  proof (intro allI impI)
    fix g assume "fst (script E P) = Inr g"
    from follows_Inr[OF follows_script this]
    have "started (snd (script E P)) = script_statements" by simp
    with count_create_projector
    show "count_list (calls (snd (script E P))) ''astra.create_projector'' = 1"
      by (simp add: calls_def)
  qed
  have "set (calls (snd (script E P))) \<subseteq> set (calls_of script_statements)"
    by (simp only: c set_append) simp
  with no_release_in_script
  have nr: "set (calls (snd (script E P))) \<inter> set release_functions = {}"
    by blast
  from le eq nr show ?thesis by blast
qed

theorem projector_created_once_witness:
  "fst (script (example_libs example_sinogram example_sirt) example_proc) = Inr example_globals
   \<and> count_list (calls example_trace) ''astra.create_projector'' = 1
   \<and> ''astra.projector.delete'' \<notin> set (calls example_trace)"
  using projector_created_once[of "example_libs example_sinogram example_sirt" example_proc]
  by (auto simp: example_run release_functions_def)

subsection \<open>The shape of the saved array and the input file\<close>

lemma shape_elementwise: "shape (elementwise f a) = shape a"
  by (simp add: elementwise_def)

text \<open>
  Claim C1.  The volume geometry is configured as a square of side \<open>Ndetx\<close>, the second
  dimension of the loaded sinogram.  When the reconstruction routine returns arrays of
  the shape of the volume geometry, the array that a run saves, the final segmented
  reconstruction, has the dimensions \<open>Ndetx\<close> by \<open>Ndetx\<close>.
\<close>

theorem saved_array_has_volume_shape:
  assumes "script E P = (Inr g, t)" and "recon_has_volume_shape E"
  shows "(\<exists>home d. Path_home E (environ P) = Inr home
            \<and> np_load E (joinpath home input_parts) = Inr d
            \<and> shape d = [g_Nan g, g_Ndetx g])
       \<and> g_Nz g = g_Ndetx g \<and> g_Nx g = g_Ndetx g
       \<and> astra_create_vol_geom E (g_Nz g) (g_Nx g) = Inr (g_vol_geom g)
       \<and> files_written t = [(output_file, g_Segrec g)]
       \<and> shape (g_Segrec g) = [g_Ndetx g, g_Ndetx g]"
proof -
  from script_InrD[OF assms(1)] obtain home d t2
    where h: "Path_home E (environ P) = Inr home"
      "np_load E (joinpath home input_parts) = Inr d"
      "shape d = [g_Nan g, g_Ndetx g]"
      and fg: "from_geometry E (elementwise (\<lambda>x. x - (- 0.00893)) d) (g_Nan g) (g_Ndetx g)
                 (angles_expr (g_Nan g)) (- 0.00893) = (Inr g, t2)"
    by blast
  from from_geometry_InrD[OF fg] obtain recsirt S
    where n: "g_Nx g = g_Ndetx g" "g_Nz g = g_Ndetx g"
      and vg: "astra_create_vol_geom E (g_Ndetx g) (g_Ndetx g) = Inr (g_vol_geom g)"
      and pj: "astra_create_projector E ''cuda'' (g_proj_geom g) (g_vol_geom g)
                 = Inr (g_proj_id g)"
      and op: "astra_OpTomo E (g_proj_id g) = Inr (g_W g)"
      and rc: "TVRDART_recon E (g_W g) (g_p g)
                 (elementwise (\<lambda>x. np_divide x (g_sf g)) recsirt) (g_param_esti g) 10 50
                 = Inr (S, g_rec g)"
      and sg: "g_Segrec g = elementwise (\<lambda>x. np_multiply x (g_sf g)) S"
    by blast
  from assms(2) vg pj op rc have "shape S = [g_Ndetx g, g_Ndetx g]"
    unfolding recon_has_volume_shape_def by blast
  with sg have sh: "shape (g_Segrec g) = [g_Ndetx g, g_Ndetx g]"
    by (simp add: shape_elementwise)
  have w: "files_written t = [(output_file, g_Segrec g)]"
    using written_script[of E P] assms(1) by simp
  from h n vg w sh show ?thesis by auto
qed

lemma example_recon_has_volume_shape:
  "recon_has_volume_shape (example_libs file sirt)"
  by (auto simp: recon_has_volume_shape_def example_libs_def)

theorem saved_array_has_volume_shape_witness:
  "script (example_libs example_sinogram example_sirt) example_proc
     = (Inr example_globals, example_trace)
   \<and> recon_has_volume_shape (example_libs example_sinogram example_sirt)
   \<and> g_Ndetx example_globals = 2
   \<and> files_written example_trace = [(output_file, g_Segrec example_globals)]
   \<and> shape (g_Segrec example_globals) = [2, 2]"
  using saved_array_has_volume_shape[OF example_run example_recon_has_volume_shape]
    example_run example_recon_has_volume_shape
  by (simp add: example_globals_def)



















subsection \<open>Arguments and environment\<close>




end
